theory Spec2Isabelle
  imports Main
begin

section \<open>JavaScript values used by the alarm scheduler\<close>

text \<open>
  The scheduler of \<^verbatim>\<open>src/utils/alarmScheduler.ts\<close> computes with JavaScript numbers
  that are hours, minutes, day numbers, time values in milliseconds and delays in
  seconds. All of them are integral or \<^verbatim>\<open>NaN\<close>, so a number is either \<open>NaN\<close> or
  an integer. Strings are lists of code units below 256.
\<close>

datatype jsnum = NaN | Num int

definition jsadd :: "jsnum \<Rightarrow> jsnum \<Rightarrow> jsnum" where
  "jsadd a b = (case (a, b) of (Num x, Num y) \<Rightarrow> Num (x + y) | _ \<Rightarrow> NaN)"

definition jssub :: "jsnum \<Rightarrow> jsnum \<Rightarrow> jsnum" where
  "jssub a b = (case (a, b) of (Num x, Num y) \<Rightarrow> Num (x - y) | _ \<Rightarrow> NaN)"

text \<open>\<^verbatim>\<open>a <= b\<close> on numbers: false as soon as one side is \<^verbatim>\<open>NaN\<close>.\<close>

definition jsle :: "jsnum \<Rightarrow> jsnum \<Rightarrow> bool" where
  "jsle a b = (case (a, b) of (Num x, Num y) \<Rightarrow> x \<le> y | _ \<Rightarrow> False)"

subsection \<open>\<^verbatim>\<open>String.prototype.split(':')\<close> and \<^verbatim>\<open>Number\<close>\<close>

fun split_colon :: "string \<Rightarrow> string list" where
  "split_colon [] = [[]]"
| "split_colon (c # cs) =
     (if c = CHR '':'' then [] # split_colon cs
      else (c # hd (split_colon cs)) # tl (split_colon cs))"

definition isWhiteSpace :: "char \<Rightarrow> bool" where
  "isWhiteSpace c = (c \<in> set [CHR 0x09, CHR 0x0A, CHR 0x0B, CHR 0x0C, CHR 0x0D, CHR 0x20, CHR 0xA0])"

definition trimString :: "string \<Rightarrow> string" where
  "trimString s = rev (dropWhile isWhiteSpace (rev (dropWhile isWhiteSpace s)))"

definition isDigit :: "char \<Rightarrow> bool" where
  "isDigit c = (c \<in> set ''0123456789'')"

definition digitValue :: "char \<Rightarrow> int" where
  "digitValue c = int (of_char c) - 48"

definition decimalValue :: "string \<Rightarrow> int" where
  "decimalValue ds = foldl (\<lambda>acc c. 10 * acc + digitValue c) 0 ds"

text \<open>
  \<^verbatim>\<open>Number(s)\<close> on a string: surrounding white space is dropped, the empty string is
  0, an optionally signed run of decimal digits is its value, and a string with a
  character that no numeric literal has is \<^verbatim>\<open>NaN\<close>. The other numeric literals of
  JavaScript (a fraction, an exponent, a radix prefix, \<^verbatim>\<open>Infinity\<close>) have values that
  \<open>jsnum\<close> does not represent: this function is \<^verbatim>\<open>Number\<close> on the strings of the
  first three forms and on those that are no numeric literal, and the time picker of
  \<^verbatim>\<open>index.tsx\<close> produces two-digit runs only. Values are exact; JavaScript rounds a
  run of digits above \<open>2\<^sup>5\<^sup>3\<close> to a double, which changes no result below, as hours or
  minutes of that size give a time value outside the range of \<^verbatim>\<open>Date\<close> either way in a
  zone whose offsets are shorter than a day.
\<close>

definition Number :: "string \<Rightarrow> jsnum" where
  "Number s =
     (let t = trimString s in
      if t = [] then Num 0
      else if list_all isDigit t then Num (decimalValue t)
      else if hd t = CHR ''+'' \<and> tl t \<noteq> [] \<and> list_all isDigit (tl t) then Num (decimalValue (tl t))
      else if hd t = CHR ''-'' \<and> tl t \<noteq> [] \<and> list_all isDigit (tl t) then Num (- decimalValue (tl t))
      else NaN)"

text \<open>Reading element \<open>i\<close> of an array of numbers; a missing element is \<^verbatim>\<open>undefined\<close>,
  which every use below converts with \<^verbatim>\<open>ToNumber\<close> to \<^verbatim>\<open>NaN\<close>.\<close>

definition element :: "jsnum list \<Rightarrow> nat \<Rightarrow> jsnum" where
  "element xs i = (if i < length xs then xs ! i else NaN)"

subsection \<open>\<^verbatim>\<open>Date\<close>\<close>

text \<open>
  A \<^verbatim>\<open>Date\<close> is its time value: milliseconds since 1970-01-01T00:00:00Z, or \<^verbatim>\<open>NaN\<close>
  for an invalid date. The functions are those of the ECMAScript specification
  (\<^verbatim>\<open>Day\<close>, \<^verbatim>\<open>MakeTime\<close>, \<^verbatim>\<open>MakeDay\<close>, \<^verbatim>\<open>MakeDate\<close>, \<^verbatim>\<open>TimeClip\<close>, \<^verbatim>\<open>LocalTime\<close>,
  \<^verbatim>\<open>UTC\<close>).
\<close>

definition msPerSecond :: int where "msPerSecond = 1000"
definition msPerMinute :: int where "msPerMinute = 60000"
definition msPerHour :: int where "msPerHour = 3600000"
definition msPerDay :: int where "msPerDay = 86400000"

definition Day :: "int \<Rightarrow> int" where
  "Day t = t div msPerDay"

definition TimeWithinDay :: "int \<Rightarrow> int" where
  "TimeWithinDay t = t mod msPerDay"

definition DaysInYear :: "int \<Rightarrow> int" where
  "DaysInYear y =
     (if y mod 4 \<noteq> 0 then 365 else if y mod 100 \<noteq> 0 then 366
      else if y mod 400 \<noteq> 0 then 365 else 366)"

definition DayFromYear :: "int \<Rightarrow> int" where
  "DayFromYear y =
     365 * (y - 1970) + (y - 1969) div 4 - (y - 1901) div 100 + (y - 1601) div 400"

text \<open>The largest year whose first day is not after the day of \<open>t\<close>: an estimate from
  the mean year length, moved by one year where it is off.\<close>

definition YearFromTime :: "int \<Rightarrow> int" where
  "YearFromTime t =
     (let d = Day t; y = 1970 + (d * 10000) div 3652425 in
      if d < DayFromYear y then y - 1
      else if DayFromYear (y + 1) \<le> d then y + 1
      else y)"

definition InLeapYear :: "int \<Rightarrow> bool" where
  "InLeapYear t = (DaysInYear (YearFromTime t) = 366)"

definition DayWithinYear :: "int \<Rightarrow> int" where
  "DayWithinYear t = Day t - DayFromYear (YearFromTime t)"

text \<open>The day within the year on which month \<open>m\<close> (0 to 11) starts.\<close>

definition monthStart :: "int \<Rightarrow> bool \<Rightarrow> int" where
  "monthStart m leap =
     (let l = (if leap then 1 else 0) in
      if m = 0 then 0 else if m = 1 then 31 else if m = 2 then 59 + l
      else if m = 3 then 90 + l else if m = 4 then 120 + l else if m = 5 then 151 + l
      else if m = 6 then 181 + l else if m = 7 then 212 + l else if m = 8 then 243 + l
      else if m = 9 then 273 + l else if m = 10 then 304 + l else 334 + l)"

definition MonthFromTime :: "int \<Rightarrow> int" where
  "MonthFromTime t =
     (let d = DayWithinYear t; leap = InLeapYear t in
      if d < monthStart 1 leap then 0 else if d < monthStart 2 leap then 1
      else if d < monthStart 3 leap then 2 else if d < monthStart 4 leap then 3
      else if d < monthStart 5 leap then 4 else if d < monthStart 6 leap then 5
      else if d < monthStart 7 leap then 6 else if d < monthStart 8 leap then 7
      else if d < monthStart 9 leap then 8 else if d < monthStart 10 leap then 9
      else if d < monthStart 11 leap then 10 else 11)"

definition DateFromTime :: "int \<Rightarrow> int" where
  "DateFromTime t = DayWithinYear t - monthStart (MonthFromTime t) (InLeapYear t) + 1"

definition MakeTime :: "jsnum \<Rightarrow> jsnum \<Rightarrow> jsnum \<Rightarrow> jsnum \<Rightarrow> jsnum" where
  "MakeTime hour minute sec ms =
     (case (hour, minute, sec, ms) of
        (Num h, Num m, Num s, Num milli) \<Rightarrow>
          Num (h * msPerHour + m * msPerMinute + s * msPerSecond + milli)
      | _ \<Rightarrow> NaN)"

definition MakeDay :: "jsnum \<Rightarrow> jsnum \<Rightarrow> jsnum \<Rightarrow> jsnum" where
  "MakeDay year month date =
     (case (year, month, date) of
        (Num y, Num m, Num dt) \<Rightarrow>
          (let ym = y + m div 12; mn = m mod 12 in
           Num (DayFromYear ym + monthStart mn (DaysInYear ym = 366) + dt - 1))
      | _ \<Rightarrow> NaN)"

definition MakeDate :: "jsnum \<Rightarrow> jsnum \<Rightarrow> jsnum" where
  "MakeDate day time =
     (case (day, time) of (Num d, Num t) \<Rightarrow> Num (d * msPerDay + t) | _ \<Rightarrow> NaN)"

definition maxTimeValue :: int where "maxTimeValue = 8640000000000000"

definition TimeClip :: "jsnum \<Rightarrow> jsnum" where
  "TimeClip time =
     (case time of NaN \<Rightarrow> NaN | Num t \<Rightarrow> if \<bar>t\<bar> > maxTimeValue then NaN else Num t)"

definition HourFromTime :: "int \<Rightarrow> int" where
  "HourFromTime t = (t div msPerHour) mod 24"

definition MinFromTime :: "int \<Rightarrow> int" where
  "MinFromTime t = (t div msPerMinute) mod 60"

text \<open>
  The time zone of the device. The methods of \<^verbatim>\<open>Date\<close> that the scheduler calls work in
  local time: they convert the time value with \<^verbatim>\<open>LocalTime\<close>, compute, and convert back
  with \<^verbatim>\<open>UTC\<close>. A zone gives the offset of local time from UTC in milliseconds twice:
  \<open>offsetAt t\<close> is the offset in force at the instant \<open>t\<close>, and \<open>offsetFor lt\<close> is the
  offset with which the local time value \<open>lt\<close> is read as an instant. ECMAScript fixes
  the second from the first only in part: a local time that a change of the offset
  skips or repeats is read with the offset in force before the change. Nothing is
  assumed about the two functions.
\<close>

record zone =
  offsetAt :: "int \<Rightarrow> int"
  offsetFor :: "int \<Rightarrow> int"

definition LocalTime :: "zone \<Rightarrow> int \<Rightarrow> int" where
  "LocalTime z t = t + offsetAt z t"

definition UTC :: "zone \<Rightarrow> int \<Rightarrow> int" where
  "UTC z t = t - offsetFor z t"

text \<open>\<^verbatim>\<open>date.setHours(hour, min, sec, ms)\<close>, \<^verbatim>\<open>date.getDate()\<close> and
  \<^verbatim>\<open>date.setDate(dt)\<close> in the zone \<open>z\<close>, each returning the date's new time value.\<close>

definition setHours :: "zone \<Rightarrow> jsnum \<Rightarrow> jsnum \<Rightarrow> jsnum \<Rightarrow> jsnum \<Rightarrow> jsnum \<Rightarrow> jsnum" where
  "setHours z hour minute sec ms this =
     (case this of NaN \<Rightarrow> NaN
      | Num t \<Rightarrow>
          (case MakeDate (Num (Day (LocalTime z t))) (MakeTime hour minute sec ms) of
             NaN \<Rightarrow> NaN
           | Num date \<Rightarrow> TimeClip (Num (UTC z date))))"

definition getDate :: "zone \<Rightarrow> jsnum \<Rightarrow> jsnum" where
  "getDate z this =
     (case this of NaN \<Rightarrow> NaN | Num t \<Rightarrow> Num (DateFromTime (LocalTime z t)))"

definition setDate :: "zone \<Rightarrow> jsnum \<Rightarrow> jsnum \<Rightarrow> jsnum" where
  "setDate z dt this =
     (case this of NaN \<Rightarrow> NaN
      | Num t \<Rightarrow>
          (let lt = LocalTime z t in
           case MakeDate (MakeDay (Num (YearFromTime lt)) (Num (MonthFromTime lt)) dt)
                         (Num (TimeWithinDay lt)) of
             NaN \<Rightarrow> NaN
           | Num newDate \<Rightarrow> TimeClip (Num (UTC z newDate))))"

section \<open>The trigger time: \<^verbatim>\<open>calculateNextAlarmTime\<close>\<close>

text \<open>
  The function reads the clock twice (\<^verbatim>\<open>now = new Date()\<close>, then
  \<^verbatim>\<open>alarmTime = new Date()\<close>); the two readings are the arguments \<open>t0\<close> and \<open>t1\<close>, and
  \<open>z\<close> is the zone of the device.
\<close>

definition calculateNextAlarmTime :: "zone \<Rightarrow> string \<Rightarrow> int \<Rightarrow> int \<Rightarrow> jsnum" where
  "calculateNextAlarmTime z wakeUpTime t0 t1 =
     (let parts = map Number (split_colon wakeUpTime);
          hours = element parts 0;
          minutes = element parts 1;
          now = Num t0;
          alarmTime = setHours z hours minutes (Num 0) (Num 0) (Num t1)
      in if jsle alarmTime now
         then setDate z (jsadd (getDate z alarmTime) (Num 1)) alarmTime
         else alarmTime)"

text \<open>The spec's time-of-day grammar: two digits, a colon, two digits, with the hour
  at most 23 and the minute at most 59.\<close>

definition parseHHMM :: "string \<Rightarrow> (int \<times> int) option" where
  "parseHHMM s =
     (case s of
        [a, b, c, d, e] \<Rightarrow>
          (if isDigit a \<and> isDigit b \<and> c = CHR '':'' \<and> isDigit d \<and> isDigit e
              \<and> decimalValue [a, b] \<le> 23 \<and> decimalValue [d, e] \<le> 59
           then Some (decimalValue [a, b], decimalValue [d, e]) else None)
      | _ \<Rightarrow> None)"

text \<open>\<^verbatim>\<open>new Date(year, month, date, hours, minutes)\<close>: the instant of that local time in
  the zone \<open>z\<close>; a year from 0 to 99 counts from 1900.\<close>

definition newDate :: "zone \<Rightarrow> int \<Rightarrow> int \<Rightarrow> int \<Rightarrow> int \<Rightarrow> int \<Rightarrow> jsnum" where
  "newDate z y m d h mi =
     (let yr = (if 0 \<le> y \<and> y \<le> 99 then 1900 + y else y) in
      case MakeDate (MakeDay (Num yr) (Num m) (Num d)) (MakeTime (Num h) (Num mi) (Num 0) (Num 0)) of
        NaN \<Rightarrow> NaN
      | Num finalDate \<Rightarrow> TimeClip (Num (UTC z finalDate)))"

text \<open>Zones: UTC, and New York around the start of daylight-saving time in 2024: five
  hours behind UTC until 2024-03-10T07:00:00Z, which is 02:00 local time, and four hours
  behind from then on, so that the local times from 02:00 to 03:00 of that day are
  skipped.\<close>

definition utc :: zone where
  "utc = \<lparr>offsetAt = (\<lambda>t. 0), offsetFor = (\<lambda>lt. 0)\<rparr>"

definition newYork :: zone where
  "newYork =
     \<lparr>offsetAt = (\<lambda>t. if t < 1710054000000 then - 5 * msPerHour else - 4 * msPerHour),
      offsetFor = (\<lambda>lt. if lt < 1710054000000 - 4 * msPerHour then - 5 * msPerHour
                         else - 4 * msPerHour)\<rparr>"

section \<open>The platform\<close>

text \<open>
  The code consumes the platform through asynchronous primitives of
  \<^verbatim>\<open>expo-file-system\<close>, \<^verbatim>\<open>expo-notifications\<close> and the browser. A primitive call either
  rejects or resolves with a value. Nothing is assumed about the platform: a device
  answers each call by an arbitrary function \<open>respond\<close> of the calls made so far and
  the call itself. The state of a run is the trace of calls and their replies.
\<close>

datatype os = Web | IOS | Android

datatype sound = DefaultSound | SoundFile string

record NotificationRequest =
  request_identifier :: string
  title :: string
  body :: string
  sound :: sound
  priority :: string
  interruptionLevel :: string
  data_type :: string
  trigger_seconds :: jsnum

text \<open>\<^verbatim>\<open>EncodingType\<close>, the \<^verbatim>\<open>encoding\<close> option of \<^verbatim>\<open>writeAsStringAsync\<close>.\<close>

datatype encoding = UTF8 | Base64

datatype call =
    GetInfoAsync string
  | MakeDirectoryAsync string
  | DeleteAsync string
  | WriteAsStringAsync string string encoding
  | DownloadAsync string string
  | GetPermissionsAsync
  | RequestPermissionsAsync
  | NotificationRequestPermission
  | CancelScheduledNotificationAsync string
  | ScheduleNotificationAsync NotificationRequest

datatype reply =
    Rejected
  | Resolved
  | Exists bool
  | DownloadResult int string
  | PermissionStatus string

type_synonym trace = "(call \<times> reply) list"

record device =
  OS :: os
  documentDirectory :: "string option"
  windowNotification :: bool
  timeZone :: zone
  respond :: "trace \<Rightarrow> call \<Rightarrow> reply"

text \<open>An exception is a thrown \<^verbatim>\<open>Error(message)\<close> or the rejection of a primitive call.
  A computation takes the trace and returns an exception or a value, with the trace
  extended by the calls it made. \<^verbatim>\<open>console.error\<close> has no effect here.\<close>

datatype exn = JsError string | Rejection call

type_synonym 'a io = "trace \<Rightarrow> (exn + 'a) \<times> trace"

definition ret :: "'a \<Rightarrow> 'a io" where
  "ret x h = (Inr x, h)"

definition throw :: "exn \<Rightarrow> 'a io" where
  "throw e h = (Inl e, h)"

definition await :: "'a io \<Rightarrow> ('a \<Rightarrow> 'b io) \<Rightarrow> 'b io" where
  "await m k h = (case m h of (Inl e, h') \<Rightarrow> (Inl e, h') | (Inr x, h') \<Rightarrow> k x h')"

definition tryCatch :: "'a io \<Rightarrow> (exn \<Rightarrow> 'a io) \<Rightarrow> 'a io" where
  "tryCatch m handler h =
     (case m h of (Inl e, h') \<Rightarrow> handler e h' | (Inr x, h') \<Rightarrow> (Inr x, h'))"

definition perform :: "device \<Rightarrow> call \<Rightarrow> reply io" where
  "perform dev c h = (let r = respond dev h c in (Inr r, h @ [(c, r)]))"

text \<open>The primitives with the result types the code relies on; a reply of another
  shape is a rejection.\<close>

definition getInfoAsync :: "device \<Rightarrow> string \<Rightarrow> bool io" where
  "getInfoAsync dev path =
     await (perform dev (GetInfoAsync path))
       (\<lambda>r. case r of Exists b \<Rightarrow> ret b | _ \<Rightarrow> throw (Rejection (GetInfoAsync path)))"

definition makeDirectoryAsync :: "device \<Rightarrow> string \<Rightarrow> unit io" where
  "makeDirectoryAsync dev path =
     await (perform dev (MakeDirectoryAsync path))
       (\<lambda>r. case r of Resolved \<Rightarrow> ret () | _ \<Rightarrow> throw (Rejection (MakeDirectoryAsync path)))"

definition deleteAsync :: "device \<Rightarrow> string \<Rightarrow> unit io" where
  "deleteAsync dev path =
     await (perform dev (DeleteAsync path))
       (\<lambda>r. case r of Resolved \<Rightarrow> ret () | _ \<Rightarrow> throw (Rejection (DeleteAsync path)))"

definition writeAsStringAsync :: "device \<Rightarrow> string \<Rightarrow> string \<Rightarrow> encoding \<Rightarrow> unit io" where
  "writeAsStringAsync dev path contents enc =
     await (perform dev (WriteAsStringAsync path contents enc))
       (\<lambda>r. case r of Resolved \<Rightarrow> ret ()
             | _ \<Rightarrow> throw (Rejection (WriteAsStringAsync path contents enc)))"

definition downloadAsync :: "device \<Rightarrow> string \<Rightarrow> string \<Rightarrow> (int \<times> string) io" where
  "downloadAsync dev url path =
     await (perform dev (DownloadAsync url path))
       (\<lambda>r. case r of DownloadResult status uri \<Rightarrow> ret (status, uri)
             | _ \<Rightarrow> throw (Rejection (DownloadAsync url path)))"

definition getPermissionsAsync :: "device \<Rightarrow> string io" where
  "getPermissionsAsync dev =
     await (perform dev GetPermissionsAsync)
       (\<lambda>r. case r of PermissionStatus s \<Rightarrow> ret s | _ \<Rightarrow> throw (Rejection GetPermissionsAsync))"

definition requestPermissionsAsync :: "device \<Rightarrow> string io" where
  "requestPermissionsAsync dev =
     await (perform dev RequestPermissionsAsync)
       (\<lambda>r. case r of PermissionStatus s \<Rightarrow> ret s
             | _ \<Rightarrow> throw (Rejection RequestPermissionsAsync))"

definition Notification_requestPermission :: "device \<Rightarrow> string io" where
  "Notification_requestPermission dev =
     await (perform dev NotificationRequestPermission)
       (\<lambda>r. case r of PermissionStatus s \<Rightarrow> ret s
             | _ \<Rightarrow> throw (Rejection NotificationRequestPermission))"

definition cancelScheduledNotificationAsync :: "device \<Rightarrow> string \<Rightarrow> unit io" where
  "cancelScheduledNotificationAsync dev ident =
     await (perform dev (CancelScheduledNotificationAsync ident))
       (\<lambda>r. case r of Resolved \<Rightarrow> ret ()
             | _ \<Rightarrow> throw (Rejection (CancelScheduledNotificationAsync ident)))"

definition scheduleNotificationAsync :: "device \<Rightarrow> NotificationRequest \<Rightarrow> unit io" where
  "scheduleNotificationAsync dev request =
     await (perform dev (ScheduleNotificationAsync request))
       (\<lambda>r. case r of Resolved \<Rightarrow> ret ()
             | _ \<Rightarrow> throw (Rejection (ScheduleNotificationAsync request)))"

section \<open>The media cache: \<^verbatim>\<open>audioStorage.ts\<close> and the notification sound\<close>

text \<open>A template literal prints \<^verbatim>\<open>null\<close> as the text \<^verbatim>\<open>null\<close>.\<close>

definition template :: "string option \<Rightarrow> string" where
  "template v = (case v of None \<Rightarrow> ''null'' | Some s \<Rightarrow> s)"

definition AUDIO_DIRNAME :: string where "AUDIO_DIRNAME = ''morning-audio''"
definition AUDIO_FILENAME :: string where "AUDIO_FILENAME = ''morning-alarm.mp3''"

definition NOTIFICATION_SOUND_FILENAME :: string where
  "NOTIFICATION_SOUND_FILENAME = ''morning-alarm-notification.wav''"

definition getAudioDirectoryPath :: "device \<Rightarrow> string" where
  "getAudioDirectoryPath dev = template (documentDirectory dev) @ AUDIO_DIRNAME @ ''/''"

definition getAudioFilePath :: "device \<Rightarrow> string" where
  "getAudioFilePath dev = getAudioDirectoryPath dev @ AUDIO_FILENAME"

text \<open>\<^verbatim>\<open>s.replace(pattern, replacement)\<close> with a string pattern: the first occurrence.\<close>

fun replace :: "string \<Rightarrow> string \<Rightarrow> string \<Rightarrow> string" where
  "replace pattern replacement [] = (if pattern = [] then replacement else [])"
| "replace pattern replacement (c # cs) =
     (if take (length pattern) (c # cs) = pattern
      then replacement @ drop (length pattern) (c # cs)
      else c # replace pattern replacement cs)"

definition getLibrarySoundsPath :: "device \<Rightarrow> string" where
  "getLibrarySoundsPath dev =
     (if OS dev = IOS
      then (case documentDirectory dev of
              None \<Rightarrow> []
            | Some d \<Rightarrow> replace ''/Documents/'' ''/Library/Sounds/'' d)
      else template (documentDirectory dev) @ ''sounds/'')"

definition getNotificationSoundPath :: "device \<Rightarrow> string" where
  "getNotificationSoundPath dev = getLibrarySoundsPath dev @ NOTIFICATION_SOUND_FILENAME"

definition ensureDirectoryExists :: "device \<Rightarrow> unit io" where
  "ensureDirectoryExists dev =
     (if OS dev = Web then ret ()
      else let dirPath = getAudioDirectoryPath dev in
        await (getInfoAsync dev dirPath)
          (\<lambda>dirInfo. if \<not> dirInfo then makeDirectoryAsync dev dirPath else ret ()))"

definition ensureSoundsDirectoryExists :: "device \<Rightarrow> unit io" where
  "ensureSoundsDirectoryExists dev =
     (if OS dev = Web then ret ()
      else let soundsPath = getLibrarySoundsPath dev in
        await (getInfoAsync dev soundsPath)
          (\<lambda>dirInfo. if \<not> dirInfo then makeDirectoryAsync dev soundsPath else ret ()))"

definition isDataUri :: "string \<Rightarrow> bool" where
  "isDataUri url = (take 5 url = ''data:'')"

text \<open>
  The regular expression \<^verbatim>\<open>/^data:[^;]+;base64,(.+)$/\<close>: after \<^verbatim>\<open>data:\<close> a non-empty
  run of characters other than \<^verbatim>\<open>;\<close>, which ends at the first \<^verbatim>\<open>;\<close>, then
  \<^verbatim>\<open>;base64,\<close>, then to the end of the string one or more characters none of which
  is a line terminator (the dot matches no line terminator). The result is the group.
\<close>

definition isLineTerminator :: "char \<Rightarrow> bool" where
  "isLineTerminator c = (c = CHR 0x0A \<or> c = CHR 0x0D)"

definition extractBase64FromDataUri :: "string \<Rightarrow> string option" where
  "extractBase64FromDataUri dataUri =
     (if take 5 dataUri \<noteq> ''data:'' then None
      else let rest = drop 5 dataUri;
               mime = takeWhile (\<lambda>c. c \<noteq> CHR '';'') rest;
               after = dropWhile (\<lambda>c. c \<noteq> CHR '';'') rest;
               payload = drop 8 after
           in if mime = [] \<or> take 8 after \<noteq> '';base64,'' then None
              else if payload = [] \<or> list_ex isLineTerminator payload then None
              else Some payload)"

text \<open>\<^verbatim>\<open>!v\<close> on a value of type \<^verbatim>\<open>string | null\<close>.\<close>

definition falsy :: "string option \<Rightarrow> bool" where
  "falsy v = (v = None \<or> v = Some [])"

definition saveAudioLocally :: "device \<Rightarrow> string \<Rightarrow> string option io" where
  "saveAudioLocally dev audioUrl =
     (if OS dev = Web then ret (Some audioUrl)
      else tryCatch
        (await (ensureDirectoryExists dev) (\<lambda>_.
         let filePath = getAudioFilePath dev in
         await (getInfoAsync dev filePath) (\<lambda>fileInfo.
         await (if fileInfo then deleteAsync dev filePath else ret ()) (\<lambda>_.
         if isDataUri audioUrl then
           (let base64Data = extractBase64FromDataUri audioUrl in
            if falsy base64Data then throw (JsError ''Invalid data URI format'')
            else await (writeAsStringAsync dev filePath (the base64Data) Base64)
                   (\<lambda>_. ret (Some filePath)))
         else
           await (downloadAsync dev audioUrl filePath) (\<lambda>(status, uri).
             if status = 200 then ret (Some uri) else ret None)))))
        (\<lambda>error. ret None))"

definition getLocalAudioPath :: "device \<Rightarrow> string option io" where
  "getLocalAudioPath dev =
     (if OS dev = Web then ret None
      else tryCatch
        (let filePath = getAudioFilePath dev in
         await (getInfoAsync dev filePath) (\<lambda>fileInfo.
           if fileInfo then ret (Some filePath) else ret None))
        (\<lambda>error. ret None))"

definition deleteLocalAudio :: "device \<Rightarrow> unit io" where
  "deleteLocalAudio dev =
     (if OS dev = Web then ret ()
      else tryCatch
        (let filePath = getAudioFilePath dev in
         await (getInfoAsync dev filePath) (\<lambda>fileInfo.
           if fileInfo then deleteAsync dev filePath else ret ()))
        (\<lambda>error. ret ()))"

definition saveNotificationSound :: "device \<Rightarrow> string \<Rightarrow> string option io" where
  "saveNotificationSound dev audioUrl =
     (if OS dev = Web then ret None
      else tryCatch
        (await (ensureSoundsDirectoryExists dev) (\<lambda>_.
         let soundPath = getNotificationSoundPath dev in
         await (getInfoAsync dev soundPath) (\<lambda>existingFile.
         await (if existingFile then deleteAsync dev soundPath else ret ()) (\<lambda>_.
         await
           (if isDataUri audioUrl then
              (let base64Data = extractBase64FromDataUri audioUrl in
               if falsy base64Data then throw (JsError ''Invalid data URI format'')
               else writeAsStringAsync dev soundPath (the base64Data) Base64)
            else
              await (downloadAsync dev audioUrl soundPath) (\<lambda>(status, uri).
                if status \<noteq> 200 then throw (JsError ''Failed to download audio'')
                else ret ()))
           (\<lambda>_.
         await (getInfoAsync dev soundPath) (\<lambda>savedFile.
           if \<not> savedFile then throw (JsError ''Sound file was not saved'')
           else ret (Some NOTIFICATION_SOUND_FILENAME)))))))
        (\<lambda>error. ret None))"

definition getNotificationSoundName :: string where
  "getNotificationSoundName = NOTIFICATION_SOUND_FILENAME"

definition deleteNotificationSound :: "device \<Rightarrow> unit io" where
  "deleteNotificationSound dev =
     (if OS dev = Web then ret ()
      else tryCatch
        (let soundPath = getNotificationSoundPath dev in
         await (getInfoAsync dev soundPath) (\<lambda>fileInfo.
           if fileInfo then deleteAsync dev soundPath else ret ()))
        (\<lambda>error. ret ()))"

text \<open>
  The steps that both saves take before the write step: create the directory when it
  is missing, then delete the file at the target path when there is one.
\<close>

definition prepareTarget :: "device \<Rightarrow> string \<Rightarrow> string \<Rightarrow> unit io" where
  "prepareTarget dev dirPath path =
     await (getInfoAsync dev dirPath) (\<lambda>dirInfo.
     await (if \<not> dirInfo then makeDirectoryAsync dev dirPath else ret ()) (\<lambda>_.
     await (getInfoAsync dev path) (\<lambda>fileInfo.
       if fileInfo then deleteAsync dev path else ret ())))"

section \<open>Permissions and scheduling: \<^verbatim>\<open>alarmScheduler.ts\<close>\<close>

definition ALARM_NOTIFICATION_ID :: string where
  "ALARM_NOTIFICATION_ID = ''morning-alarm''"

record ScheduleAlarmParams =
  wakeUpTime :: string
  name :: string
  soundFileName :: "string option"

record ScheduleResult =
  success :: bool
  error :: "string option"
  scheduledTime :: "jsnum option"

definition requestNotificationPermissions :: "device \<Rightarrow> bool io" where
  "requestNotificationPermissions dev =
     (if OS dev = Web then
        (if windowNotification dev
         then await (Notification_requestPermission dev)
                (\<lambda>permission. ret (permission = ''granted''))
         else ret False)
      else
        await (getPermissionsAsync dev) (\<lambda>existingStatus.
          if existingStatus = ''granted'' then ret True
          else await (requestPermissionsAsync dev) (\<lambda>status. ret (status = ''granted''))))"

definition cancelExistingAlarm :: "device \<Rightarrow> unit io" where
  "cancelExistingAlarm dev =
     tryCatch
       (if OS dev = Web then ret ()
        else cancelScheduledNotificationAsync dev ALARM_NOTIFICATION_ID)
       (\<lambda>error. ret ())"

text \<open>\<^verbatim>\<open>Math.floor(x / 1000)\<close> and \<^verbatim>\<open>Math.max(a, b)\<close>; both are \<^verbatim>\<open>NaN\<close> on \<^verbatim>\<open>NaN\<close>.\<close>

definition floorDiv :: "jsnum \<Rightarrow> int \<Rightarrow> jsnum" where
  "floorDiv x d = (case x of NaN \<Rightarrow> NaN | Num v \<Rightarrow> Num (v div d))"

definition Math_max :: "jsnum \<Rightarrow> jsnum \<Rightarrow> jsnum" where
  "Math_max a b = (case (a, b) of (Num x, Num y) \<Rightarrow> Num (max x y) | _ \<Rightarrow> NaN)"

text \<open>The three clock readings of one call of \<^verbatim>\<open>scheduleAlarm\<close>: the two of
  \<^verbatim>\<open>calculateNextAlarmTime\<close>, then \<^verbatim>\<open>Date.now()\<close> where the delay is computed.\<close>

record clock =
  now0 :: int
  now1 :: int
  now2 :: int

definition scheduleAlarm :: "device \<Rightarrow> clock \<Rightarrow> ScheduleAlarmParams \<Rightarrow> ScheduleResult io" where
  "scheduleAlarm dev clk params =
     tryCatch
       (await (requestNotificationPermissions dev) (\<lambda>hasPermission.
          if \<not> hasPermission then
            ret \<lparr>success = False,
                 error = Some ''Notification permissions are required to schedule your morning alarm.'',
                 scheduledTime = None\<rparr>
          else
            await (cancelExistingAlarm dev) (\<lambda>_.
              let alarmTime =
                    calculateNextAlarmTime (timeZone dev) (wakeUpTime params) (now0 clk) (now1 clk);
                  secondsUntilAlarm =
                    Math_max (Num 1) (floorDiv (jssub alarmTime (Num (now2 clk))) 1000)
              in
              if OS dev = Web then
                ret \<lparr>success = True,
                     error = Some ''Web notifications have limited background support. Keep the browser tab open for best results.'',
                     scheduledTime = Some alarmTime\<rparr>
              else
                let notificationSound =
                      (if falsy (soundFileName params) then DefaultSound
                       else SoundFile (the (soundFileName params)))
                in
                await (scheduleNotificationAsync dev
                         \<lparr>request_identifier = ALARM_NOTIFICATION_ID,
                          title = ''Good Morning!'',
                          body = name params @ '', your personalized morning audio is ready.'',
                          sound = notificationSound,
                          priority = ''max'',
                          interruptionLevel = ''timeSensitive'',
                          data_type = ''morning-alarm'',
                          trigger_seconds = secondsUntilAlarm\<rparr>)
                  (\<lambda>_. ret \<lparr>success = True, error = None, scheduledTime = Some alarmTime\<rparr>))))
       (\<lambda>error. ret \<lparr>success = False,
                      error = Some ''Failed to schedule alarm. Please try again.'',
                      scheduledTime = None\<rparr>)"

section \<open>The orchestrator: \<^verbatim>\<open>handleScheduleAlarm\<close>\<close>

datatype SchedulingStatus = Idle | Saving | Scheduling | Scheduled | Cancelling | Error

record screen =
  schedulingStatus :: SchedulingStatus
  scheduleResult :: "ScheduleResult option"
  errorMessage :: "string option"
  localAudioPath :: "string option"

text \<open>The route parameters the handler reads; a missing parameter is \<open>None\<close>.\<close>

record route =
  audioUrl :: "string option"
  userName :: string
  routeWakeUpTime :: "string option"

text \<open>
  The two saves of \<^verbatim>\<open>Promise.all\<close> address different paths and neither rejects; they
  run here one after the other. \<open>mounted1\<close> and \<open>mounted2\<close> are the values of
  \<^verbatim>\<open>isMounted.current\<close> read after the saves and after the scheduling.
\<close>

definition handleScheduleAlarm ::
    "device \<Rightarrow> clock \<Rightarrow> route \<Rightarrow> bool \<Rightarrow> bool \<Rightarrow> screen \<Rightarrow> screen io" where
  "handleScheduleAlarm dev clk params mounted1 mounted2 scr =
     (if falsy (audioUrl params) then
        ret (scr\<lparr>errorMessage := Some ''No audio available to schedule.'',
                 schedulingStatus := Error\<rparr>)
      else if falsy (routeWakeUpTime params) then
        ret (scr\<lparr>errorMessage := Some ''No wake-up time specified.'',
                 schedulingStatus := Error\<rparr>)
      else
        let scr1 = scr\<lparr>schedulingStatus := Saving, errorMessage := None\<rparr> in
        await (saveAudioLocally dev (the (audioUrl params))) (\<lambda>savedPath.
        await (saveNotificationSound dev (the (audioUrl params))) (\<lambda>soundFile.
          if \<not> mounted1 then ret scr1
          else if falsy savedPath then
            ret (scr1\<lparr>errorMessage := Some ''Failed to save audio. Please try again.'',
                      schedulingStatus := Error\<rparr>)
          else
            let scr2 = scr1\<lparr>localAudioPath := savedPath, schedulingStatus := Scheduling\<rparr> in
            await (scheduleAlarm dev clk
                     \<lparr>wakeUpTime = the (routeWakeUpTime params),
                      name = userName params,
                      soundFileName = (if falsy soundFile then None else soundFile)\<rparr>)
              (\<lambda>result.
                 if \<not> mounted2 then ret scr2
                 else
                   let scr3 = scr2\<lparr>scheduleResult := Some result\<rparr> in
                   if success result then
                     ret (if falsy (error result) then scr3\<lparr>schedulingStatus := Scheduled\<rparr>
                          else scr3\<lparr>schedulingStatus := Scheduled,
                                     errorMessage := error result\<rparr>)
                   else
                     ret (scr3\<lparr>errorMessage :=
                                  (if falsy (error result) then Some ''Failed to schedule alarm.''
                                   else error result),
                               schedulingStatus := Error\<rparr>)))))"

section \<open>Reading a trace\<close>

text \<open>
  What the platform holds after a run is read off the trace. A call that resolved
  has had its effect; a rejected call has had none.
\<close>

definition lastScheduleRequest :: "trace \<Rightarrow> NotificationRequest option" where
  "lastScheduleRequest h =
     (case rev h of (ScheduleNotificationAsync request, r) # _ \<Rightarrow> Some request | _ \<Rightarrow> None)"

definition isConsentRequest :: "call \<Rightarrow> bool" where
  "isConsentRequest c = (c = RequestPermissionsAsync \<or> c = NotificationRequestPermission)"

definition consentRequests :: "trace \<Rightarrow> nat" where
  "consentRequests h = length (filter isConsentRequest (map fst h))"

definition isTransfer :: "call \<Rightarrow> bool" where
  "isTransfer c = (case c of DownloadAsync url path \<Rightarrow> True | _ \<Rightarrow> False)"


definition transfers :: "trace \<Rightarrow> call list" where
  "transfers h = filter isTransfer (map fst h)"


text \<open>A transfer reports success when it resolves with status 200.\<close>

definition transferSucceeded :: "reply \<Rightarrow> bool" where
  "transferSucceeded r = (case r of DownloadResult status uri \<Rightarrow> status = 200 | _ \<Rightarrow> False)"

text \<open>
  A call is accepted when the platform resolves it with a value of the shape the code
  reads, and rejected otherwise. A call has succeeded when it is accepted and, for a
  transfer, the status is 200. The calls of a run are those it adds to the trace.
\<close>

definition accepted :: "call \<times> reply \<Rightarrow> bool" where
  "accepted x =
     (case fst x of
        GetInfoAsync path \<Rightarrow> (case snd x of Exists b \<Rightarrow> True | _ \<Rightarrow> False)
      | DownloadAsync url path \<Rightarrow> (case snd x of DownloadResult status uri \<Rightarrow> True | _ \<Rightarrow> False)
      | GetPermissionsAsync \<Rightarrow> (case snd x of PermissionStatus s \<Rightarrow> True | _ \<Rightarrow> False)
      | RequestPermissionsAsync \<Rightarrow> (case snd x of PermissionStatus s \<Rightarrow> True | _ \<Rightarrow> False)
      | NotificationRequestPermission \<Rightarrow> (case snd x of PermissionStatus s \<Rightarrow> True | _ \<Rightarrow> False)
      | _ \<Rightarrow> snd x = Resolved)"

definition succeeded :: "call \<times> reply \<Rightarrow> bool" where
  "succeeded x = (accepted x \<and> (isTransfer (fst x) \<longrightarrow> transferSucceeded (snd x)))"

definition calls :: "'a io \<Rightarrow> trace \<Rightarrow> trace" where
  "calls m h = drop (length h) (snd (m h))"

text \<open>
  A computation is orderly for the results \<open>Q\<close> when, from every trace, it extends the
  trace, every call that it makes before its last call has succeeded, and a result in
  \<open>Q\<close> is returned only after calls that have all succeeded.
\<close>

definition orderly :: "('a \<Rightarrow> bool) \<Rightarrow> 'a io \<Rightarrow> bool" where
  "orderly Q m =
     (\<forall>h. take (length h) (snd (m h)) = h
        \<and> list_all succeeded (butlast (calls m h))
        \<and> (\<forall>x. fst (m h) = Inr x \<and> Q x \<longrightarrow> list_all succeeded (calls m h)))"

text \<open>The calls that query or request the notification permission.\<close>

definition permissionCall :: "call \<times> reply \<Rightarrow> bool" where
  "permissionCall x = (fst x = GetPermissionsAsync \<or> fst x = RequestPermissionsAsync
      \<or> fst x = NotificationRequestPermission)"

text \<open>The path that the playback save returns for the reply of a transfer.\<close>

definition downloadedUri :: "reply \<Rightarrow> string option" where
  "downloadedUri r =
     (case r of DownloadResult status uri \<Rightarrow> if status = 200 then Some uri else None
      | _ \<Rightarrow> None)"

subsection \<open>The scheduled notifications\<close>

text \<open>
  The notification centre as the spec's boundary describes it: registering adds an
  item, cancelling by identifier removes the items of that identifier. Registering does
  not by itself replace an item of the same identifier.
\<close>

fun registerStep :: "NotificationRequest list \<Rightarrow> call \<times> reply \<Rightarrow> NotificationRequest list" where
  "registerStep regs (ScheduleNotificationAsync request, Resolved) = regs @ [request]"
| "registerStep regs (CancelScheduledNotificationAsync ident, Resolved) =
     filter (\<lambda>r. request_identifier r \<noteq> ident) regs"
| "registerStep regs _ = regs"

definition scheduled :: "trace \<Rightarrow> NotificationRequest list" where
  "scheduled h = foldl registerStep [] h"

definition alarms :: "trace \<Rightarrow> NotificationRequest list" where
  "alarms h = filter (\<lambda>r. request_identifier r = ALARM_NOTIFICATION_ID) (scheduled h)"

text \<open>At every moment of a trace, that is after each of its calls, at most one alarm
  is registered.\<close>

definition atMostOneThroughout :: "trace \<Rightarrow> bool" where
  "atMostOneThroughout h =
     list_all (\<lambda>k. length (alarms (take k h)) \<le> 1) [0..<Suc (length h)]"

text \<open>The notification centre of the device carries out every cancellation of the
  alarm's identifier.\<close>

definition cancelWorks :: "device \<Rightarrow> bool" where
  "cancelWorks dev =
     (\<forall>h. respond dev h (CancelScheduledNotificationAsync ALARM_NOTIFICATION_ID) = Resolved)"

subsection \<open>The files\<close>

text \<open>
  What a file holds is decided by the \<^verbatim>\<open>encoding\<close> option of the write:
  with \<^verbatim>\<open>EncodingType.Base64\<close> the platform decodes the text as Base64 (RFC 4648, with
  \<^verbatim>\<open>=\<close> padding) and stores the bytes; with \<^verbatim>\<open>EncodingType.UTF8\<close> it stores the UTF-8
  bytes of the text. Bytes are numbers below 256.
\<close>

definition base64Index :: "char \<Rightarrow> nat option" where
  "base64Index c =
     (let n = (of_char c :: nat) in
      if 65 \<le> n \<and> n \<le> 90 then Some (n - 65)
      else if 97 \<le> n \<and> n \<le> 122 then Some (n - 71)
      else if 48 \<le> n \<and> n \<le> 57 then Some (n + 4)
      else if n = 43 then Some 62
      else if n = 47 then Some 63
      else None)"

definition decodeQuad :: "char \<Rightarrow> char \<Rightarrow> char \<Rightarrow> char \<Rightarrow> nat list option" where
  "decodeQuad a b c d =
     (case (base64Index a, base64Index b, base64Index c, base64Index d) of
        (Some i, Some j, Some k, Some l) \<Rightarrow>
          Some [4 * i + j div 16, (16 * j + k div 4) mod 256, (64 * k + l) mod 256]
      | _ \<Rightarrow> None)"

definition decodeLast :: "char \<Rightarrow> char \<Rightarrow> char \<Rightarrow> char \<Rightarrow> nat list option" where
  "decodeLast a b c d =
     (if c = CHR ''='' \<and> d = CHR ''='' then
        (case (base64Index a, base64Index b) of
           (Some i, Some j) \<Rightarrow> Some [4 * i + j div 16]
         | _ \<Rightarrow> None)
      else if d = CHR ''='' then
        (case (base64Index a, base64Index b, base64Index c) of
           (Some i, Some j, Some k) \<Rightarrow> Some [4 * i + j div 16, (16 * j + k div 4) mod 256]
         | _ \<Rightarrow> None)
      else decodeQuad a b c d)"

fun base64decode :: "string \<Rightarrow> nat list option" where
  "base64decode [] = Some []"
| "base64decode [a, b, c, d] = decodeLast a b c d"
| "base64decode (a # b # c # d # rest) =
     (case decodeQuad a b c d of
        None \<Rightarrow> None
      | Some bytes \<Rightarrow> map_option ((@) bytes) (base64decode rest))"
| "base64decode _ = None"

text \<open>The UTF-8 bytes of a string of code units below 256.\<close>

definition utf8 :: "string \<Rightarrow> nat list" where
  "utf8 s = concat (map (\<lambda>c. let n = (of_char c :: nat) in
                           if n < 128 then [n] else [192 + n div 64, 128 + n mod 64]) s)"

definition written :: "string \<Rightarrow> encoding \<Rightarrow> nat list option" where
  "written contents enc =
     (case enc of Base64 \<Rightarrow> base64decode contents | UTF8 \<Rightarrow> Some (utf8 contents))"

datatype content = Directory | Bytes "nat list" | Fetched string

fun storeStep :: "(string \<Rightarrow> content option) \<Rightarrow> call \<times> reply \<Rightarrow> (string \<Rightarrow> content option)" where
  "storeStep fs (WriteAsStringAsync path contents enc, Resolved) =
     (case written contents enc of None \<Rightarrow> fs | Some bytes \<Rightarrow> fs(path \<mapsto> Bytes bytes))"
| "storeStep fs (DownloadAsync url path, DownloadResult status uri) = fs(path \<mapsto> Fetched url)"
| "storeStep fs (DeleteAsync path, Resolved) = fs(path := None)"
| "storeStep fs (MakeDirectoryAsync path, Resolved) = fs(path \<mapsto> Directory)"
| "storeStep fs _ = fs"

definition files :: "trace \<Rightarrow> (string \<Rightarrow> content option)" where
  "files h = foldl storeStep Map.empty h"

subsection \<open>Devices\<close>

text \<open>
  A device in working order: its file system answers from the files it holds, it
  rejects a Base64 write of text that is not Base64, a transfer of \<open>url\<close> ends with the status
  \<open>http url\<close>, the user answers a consent request with \<open>answer\<close>, and the notification
  centre accepts every call.
\<close>

definition working :: "(string \<Rightarrow> int) \<Rightarrow> string \<Rightarrow> trace \<Rightarrow> call \<Rightarrow> reply" where
  "working http answer h c =
     (case c of
        GetInfoAsync path \<Rightarrow> Exists (files h path \<noteq> None)
      | MakeDirectoryAsync path \<Rightarrow> Resolved
      | DeleteAsync path \<Rightarrow> Resolved
      | WriteAsStringAsync path contents enc \<Rightarrow>
          (if written contents enc = None then Rejected else Resolved)
      | DownloadAsync url path \<Rightarrow> DownloadResult (http url) path
      | GetPermissionsAsync \<Rightarrow>
          PermissionStatus (if consentRequests h = 0 then ''undetermined'' else answer)
      | RequestPermissionsAsync \<Rightarrow> PermissionStatus answer
      | NotificationRequestPermission \<Rightarrow> PermissionStatus answer
      | CancelScheduledNotificationAsync ident \<Rightarrow> Resolved
      | ScheduleNotificationAsync request \<Rightarrow> Resolved)"

definition phone :: device where
  "phone = \<lparr>OS = Android, documentDirectory = Some ''file:///data/user/0/app/files/'',
            windowNotification = False, timeZone = utc,
            respond = working (\<lambda>url. 200) ''granted''\<rparr>"

text \<open>A browser in which the notification permission has been granted before.\<close>

definition browser :: device where
  "browser = \<lparr>OS = Web, documentDirectory = None, windowNotification = True,
              timeZone = utc,
              respond = (\<lambda>h c. PermissionStatus ''granted'')\<rparr>"

text \<open>A phone whose storage acknowledges every call and keeps nothing.\<close>

definition lossy :: device where
  "lossy = \<lparr>OS = Android, documentDirectory = Some ''file:///data/user/0/app/files/'',
            windowNotification = False, timeZone = utc,
            respond = (\<lambda>h c. case c of GetInfoAsync path \<Rightarrow> Exists False
                             | DownloadAsync url path \<Rightarrow> DownloadResult 200 path
                             | _ \<Rightarrow> Resolved)\<rparr>"

text \<open>A device on which every call is rejected.\<close>

definition broken :: device where
  "broken = \<lparr>OS = IOS, documentDirectory = None, windowNotification = False,
             timeZone = utc,
             respond = (\<lambda>h c. Rejected)\<rparr>"

text \<open>A working phone on which the directory of the notification sounds cannot be
  created.\<close>

definition noSounds :: device where
  "noSounds = phone\<lparr>respond :=
     (\<lambda>h c. case c of
          MakeDirectoryAsync path \<Rightarrow>
            (if path = getLibrarySoundsPath phone then Rejected else Resolved)
        | _ \<Rightarrow> working (\<lambda>url. 200) ''granted'' h c)\<rparr>"


subsection \<open>Sequences of operations\<close>

datatype operation = Schedule clock ScheduleAlarmParams | Cancel

definition operate :: "device \<Rightarrow> operation \<Rightarrow> trace \<Rightarrow> trace" where
  "operate dev op h =
     (case op of
        Schedule clk params \<Rightarrow> snd (scheduleAlarm dev clk params h)
      | Cancel \<Rightarrow> snd (cancelExistingAlarm dev h))"

definition operateAll :: "device \<Rightarrow> operation list \<Rightarrow> trace \<Rightarrow> trace" where
  "operateAll dev ops h = foldl (\<lambda>h op. operate dev op h) h ops"

section \<open>Notions of the specification\<close>

text \<open>The time at hour \<open>h\<close> and minute \<open>m\<close>, seconds and milliseconds zero, on the
  date of \<open>t\<close>.\<close>

definition candidate :: "int \<Rightarrow> int \<Rightarrow> int \<Rightarrow> int" where
  "candidate t h m = Day t * msPerDay + h * msPerHour + m * msPerMinute"

text \<open>
  The clock of the zone shows the local time \<open>lt\<close>: at the instant \<open>UTC z lt\<close> that the
  zone assigns to \<open>lt\<close>, the local time is \<open>lt\<close>. This holds for every local time of a
  zone with a fixed offset, and fails for a local time that a change of the offset
  skips. An instant is in the range of \<^verbatim>\<open>Date\<close> when it is at most 100 000 000 days
  from 1970-01-01T00:00:00Z.
\<close>

definition shown :: "zone \<Rightarrow> int \<Rightarrow> bool" where
  "shown z lt = (LocalTime z (UTC z lt) = lt)"

definition inDateRange :: "int \<Rightarrow> bool" where
  "inDateRange t = (\<bar>t\<bar> \<le> maxTimeValue)"

text \<open>The status a permission call resolved with, and the result that
  \<^verbatim>\<open>requestNotificationPermissions\<close> makes of the reply to a consent request: whether the
  status is \<^verbatim>\<open>granted\<close>, or the rejection.\<close>

definition permissionStatus :: "reply \<Rightarrow> string option" where
  "permissionStatus r = (case r of PermissionStatus s \<Rightarrow> Some s | _ \<Rightarrow> None)"

definition requestResult :: "call \<Rightarrow> reply \<Rightarrow> exn + bool" where
  "requestResult c r =
     (case r of PermissionStatus s \<Rightarrow> Inr (s = ''granted'') | _ \<Rightarrow> Inl (Rejection c))"

text \<open>The registration delay in the spec's words, in milliseconds:
  \<open>max(1 second, triggerInstant - now)\<close>.\<close>

definition specDelayMs :: "int \<Rightarrow> int \<Rightarrow> int" where
  "specDelayMs triggerInstant now = max 1000 (triggerInstant - now)"

section \<open>Verification: the trigger time\<close>

lemma digit_not_white: "isDigit c \<Longrightarrow> \<not> isWhiteSpace c"
  by (auto simp: isDigit_def isWhiteSpace_def)

lemma digit_not_colon: "isDigit c \<Longrightarrow> c \<noteq> CHR '':''"
  by (auto simp: isDigit_def)

lemma dropWhile_keep: "xs \<noteq> [] \<Longrightarrow> \<not> P (hd xs) \<Longrightarrow> dropWhile P xs = xs"
  by (cases xs) auto

lemma trimString_digits:
  assumes "list_all isDigit ds"
  shows "trimString ds = ds"
proof (cases "ds = []")
  case True
  then show ?thesis by (simp add: trimString_def)
next
  case False
  have h: "\<not> isWhiteSpace (hd ds)"
    using assms False by (cases ds) (auto simp: digit_not_white)
  have l: "\<not> isWhiteSpace (hd (rev ds))"
    using assms False by (simp add: hd_rev list_all_iff digit_not_white)
  show ?thesis
    using False h l by (simp add: trimString_def dropWhile_keep)
qed

lemma Number_digits:
  "list_all isDigit ds \<Longrightarrow> ds \<noteq> [] \<Longrightarrow> Number ds = Num (decimalValue ds)"
  by (simp add: Number_def trimString_digits)

lemma split_colon_plain: "CHR '':'' \<notin> set s \<Longrightarrow> split_colon s = [s]"
  by (induction s) auto

lemma split_colon_first:
  "CHR '':'' \<notin> set hs \<Longrightarrow> split_colon (hs @ CHR '':'' # rest) = hs # split_colon rest"
  by (induction hs) auto

lemma split_colon_digits:
  assumes "list_all isDigit hs" "list_all isDigit ms"
  shows "split_colon (hs @ CHR '':'' # ms) = [hs, ms]"
proof -
  have "CHR '':'' \<notin> set hs" "CHR '':'' \<notin> set ms"
    using assms by (auto simp: list_all_iff dest: digit_not_colon)
  then show ?thesis by (simp add: split_colon_first split_colon_plain)
qed

lemma next_calendar_day:
  "MakeDay (Num (YearFromTime t)) (Num (MonthFromTime t)) (jsadd (Num (DateFromTime t)) (Num 1))
     = Num (Day t + 1)"
proof -
  have m: "0 \<le> MonthFromTime t \<and> MonthFromTime t < 12"
    by (simp add: MonthFromTime_def Let_def)
  then have "MonthFromTime t div 12 = 0" "MonthFromTime t mod 12 = MonthFromTime t"
    by simp_all
  then show ?thesis
    by (simp add: MakeDay_def jsadd_def DateFromTime_def DayWithinYear_def InLeapYear_def)
qed

lemma setDate_next:
  "setDate z (jsadd (getDate z (Num v)) (Num 1)) (Num v)
     = TimeClip (Num (UTC z (LocalTime z v + msPerDay)))"
proof -
  have "(Day t + 1) * msPerDay + TimeWithinDay t = t + msPerDay" for t
    by (simp add: Day_def TimeWithinDay_def algebra_simps)
  then show ?thesis
    by (simp add: setDate_def getDate_def next_calendar_day MakeDate_def Let_def)
qed

lemma setHours_Num:
  "setHours z (Num h) (Num m) (Num 0) (Num 0) (Num t)
     = TimeClip (Num (UTC z (candidate (LocalTime z t) h m)))"
  by (simp add: setHours_def MakeDate_def MakeTime_def candidate_def algebra_simps)

lemma calc_digits:
  assumes "list_all isDigit hs" "hs \<noteq> []" "list_all isDigit ms" "ms \<noteq> []"
  shows "calculateNextAlarmTime z (hs @ CHR '':'' # ms) t0 t1 =
     (case TimeClip (Num (UTC z (candidate (LocalTime z t1) (decimalValue hs) (decimalValue ms)))) of
        NaN \<Rightarrow> NaN
      | Num v \<Rightarrow> if v \<le> t0 then TimeClip (Num (UTC z (LocalTime z v + msPerDay))) else Num v)"
proof (cases "TimeClip (Num (UTC z (candidate (LocalTime z t1) (decimalValue hs) (decimalValue ms))))")
  case NaN
  then show ?thesis using assms
    by (simp add: calculateNextAlarmTime_def split_colon_digits element_def Number_digits
        setHours_Num Let_def jsle_def)
next
  case (Num v)
  then show ?thesis using assms
    by (simp add: calculateNextAlarmTime_def split_colon_digits element_def Number_digits
        setHours_Num Let_def jsle_def setDate_next)
qed

lemma digitValue_range: "isDigit c \<Longrightarrow> 0 \<le> digitValue c \<and> digitValue c \<le> 9"
  by (auto simp: isDigit_def digitValue_def)

lemma parseHHMM_SomeD:
  assumes "parseHHMM s = Some (h, m)"
  obtains a b d e where "s = [a, b] @ CHR '':'' # [d, e]"
    "list_all isDigit [a, b]" "list_all isDigit [d, e]"
    "h = decimalValue [a, b]" "m = decimalValue [d, e]"
    "0 \<le> h" "h \<le> 23" "0 \<le> m" "m \<le> 59"
proof -
  from assms obtain a b c d e where s: "s = [a, b, c, d, e]"
    by (auto simp: parseHHMM_def split: list.splits)
  from assms s have f: "isDigit a" "isDigit b" "c = CHR '':''" "isDigit d" "isDigit e"
     "decimalValue [a, b] \<le> 23" "decimalValue [d, e] \<le> 59"
     "h = decimalValue [a, b]" "m = decimalValue [d, e]"
    by (auto simp: parseHHMM_def split: if_splits)
  have "0 \<le> h" "0 \<le> m"
    using f digitValue_range[of a] digitValue_range[of b] digitValue_range[of d] digitValue_range[of e]
    by (auto simp: decimalValue_def)
  then show ?thesis using that[of a b d e] s f by simp
qed

lemma candidate_day:
  assumes "0 \<le> h" "h \<le> 23" "0 \<le> m" "m \<le> 59"
  shows "Day (candidate t h m) = Day t"
    and "HourFromTime (candidate t h m) = h"
    and "MinFromTime (candidate t h m) = m"
    and "candidate t h m mod msPerMinute = 0"
proof -
  let ?r = "h * msPerHour + m * msPerMinute"
  have r: "0 \<le> ?r" "?r < msPerDay"
    using assms by (auto simp: msPerHour_def msPerMinute_def msPerDay_def)
  have c: "candidate t h m = ?r + Day t * msPerDay" by (simp add: candidate_def)
  show "Day (candidate t h m) = Day t"
    unfolding c Day_def[of "?r + Day t * msPerDay"] using r
    by (simp add: msPerDay_def)
  have ch: "candidate t h m = (m * 60000) + (Day t * 24 + h) * 3600000"
    by (simp add: candidate_def msPerDay_def msPerHour_def msPerMinute_def algebra_simps)
  have "candidate t h m div 3600000 = Day t * 24 + h"
    unfolding ch using assms by simp
  then show "HourFromTime (candidate t h m) = h"
    using assms by (simp add: HourFromTime_def msPerHour_def)
  have cm: "candidate t h m = (Day t * 1440 + h * 60 + m) * 60000"
    by (simp add: candidate_def msPerDay_def msPerHour_def msPerMinute_def algebra_simps)
  have mm: "(Day t * 1440 + h * 60 + m) mod 60 = m"
  proof -
    have e: "Day t * 1440 + h * 60 + m = m + (Day t * 24 + h) * 60" by simp
    have "(m + (Day t * 24 + h) * 60) mod 60 = m mod 60" by (rule mod_mult_self1)
    moreover have "m mod 60 = m" using assms by simp
    ultimately show ?thesis unfolding e by (rule trans)
  qed
  have dm: "candidate t h m div 60000 = Day t * 1440 + h * 60 + m"
    unfolding cm by simp
  show "MinFromTime (candidate t h m) = m"
    by (simp only: MinFromTime_def msPerMinute_def dm mm)
  show "candidate t h m mod msPerMinute = 0"
    unfolding cm by (simp add: msPerMinute_def)
qed

text \<open>
  Claim C1, as the code has it. For a time of day \<open>HH:MM\<close> with hour at most 23 and
  minute at most 59, \<^verbatim>\<open>calculateNextAlarmTime\<close> takes the local time \<open>c\<close> with that hour
  and minute, seconds and milliseconds zero, on the local date of its clock reading, and
  returns the instant that the zone assigns to \<open>c\<close> when that instant is strictly after
  the clock reading taken first; otherwise it returns the instant that the zone assigns
  to the local time one calendar day after the local time of that instant. Where the
  clock of the zone shows \<open>c\<close> and the same time of the next day, and the instants are in
  the range of \<^verbatim>\<open>Date\<close>, the result is the instant at which the local time is \<open>c\<close>, or
  is \<open>c\<close> one calendar day later.
\<close>

theorem C1_next_occurrence:
  assumes "parseHHMM timeOfDay = Some (h, m)"
  shows "(let c = candidate (LocalTime z t1) h m in
        Day c = Day (LocalTime z t1) \<and> HourFromTime c = h \<and> MinFromTime c = m
      \<and> c mod msPerMinute = 0
      \<and> calculateNextAlarmTime z timeOfDay t0 t1 =
          (case TimeClip (Num (UTC z c)) of
             NaN \<Rightarrow> NaN
           | Num v \<Rightarrow> if v \<le> t0 then TimeClip (Num (UTC z (LocalTime z v + msPerDay)))
                      else Num v)
      \<and> (shown z c \<and> shown z (c + msPerDay)
          \<and> inDateRange (UTC z c) \<and> inDateRange (UTC z (c + msPerDay)) \<longrightarrow>
           calculateNextAlarmTime z timeOfDay t0 t1 =
             Num (UTC z (if t0 < UTC z c then c else c + msPerDay))
         \<and> LocalTime z (UTC z (if t0 < UTC z c then c else c + msPerDay)) =
             (if t0 < UTC z c then c else c + msPerDay)))"
proof -
  from assms(1) obtain a b d e where s: "timeOfDay = [a, b] @ CHR '':'' # [d, e]"
    and dg: "list_all isDigit [a, b]" "list_all isDigit [d, e]"
    and v: "h = decimalValue [a, b]" "m = decimalValue [d, e]"
    and b: "0 \<le> h" "h \<le> 23" "0 \<le> m" "m \<le> 59"
    by (rule parseHHMM_SomeD)
  let ?c = "candidate (LocalTime z t1) h m"
  have eq: "calculateNextAlarmTime z timeOfDay t0 t1 =
          (case TimeClip (Num (UTC z ?c)) of
             NaN \<Rightarrow> NaN
           | Num v \<Rightarrow> if v \<le> t0 then TimeClip (Num (UTC z (LocalTime z v + msPerDay)))
                      else Num v)"
    unfolding s using dg by (subst calc_digits) (simp_all add: v)
  have reg: "calculateNextAlarmTime z timeOfDay t0 t1 =
             Num (UTC z (if t0 < UTC z ?c then ?c else ?c + msPerDay))
         \<and> LocalTime z (UTC z (if t0 < UTC z ?c then ?c else ?c + msPerDay)) =
             (if t0 < UTC z ?c then ?c else ?c + msPerDay)"
    if "shown z ?c" "shown z (?c + msPerDay)" "inDateRange (UTC z ?c)"
       "inDateRange (UTC z (?c + msPerDay))"
    using that unfolding eq by (simp add: shown_def inDateRange_def TimeClip_def)
  show ?thesis
    unfolding Let_def using candidate_day[OF b, of "LocalTime z t1"] eq reg by blast
qed

text \<open>In UTC at 2024-01-01T10:00:00, \<^verbatim>\<open>11:30\<close> gives 2024-01-01T11:30:00 and \<^verbatim>\<open>09:00\<close> gives
  2024-01-02T09:00:00. In New York at 10:00 on 2024-03-09, \<^verbatim>\<open>09:00\<close> gives 09:00 on
  2024-03-10, which is 23 hours after 09:00 on 2024-03-09.\<close>

theorem C1_next_occurrence_witness:
  "parseHHMM ''11:30'' = Some (11, 30) \<and> parseHHMM ''09:00'' = Some (9, 0)
   \<and> shown utc (candidate (LocalTime utc 1704103200000) 11 30)
   \<and> shown utc (candidate (LocalTime utc 1704103200000) 11 30 + msPerDay)
   \<and> inDateRange (UTC utc (candidate (LocalTime utc 1704103200000) 11 30))
   \<and> inDateRange (UTC utc (candidate (LocalTime utc 1704103200000) 11 30 + msPerDay))
   \<and> newDate utc 2024 0 1 10 0 = Num 1704103200000
   \<and> calculateNextAlarmTime utc ''11:30'' 1704103200000 1704103200000 = newDate utc 2024 0 1 11 30
   \<and> calculateNextAlarmTime utc ''09:00'' 1704103200000 1704103200000 = newDate utc 2024 0 2 9 0
   \<and> shown utc (candidate (LocalTime utc 1704103200000) 9 0)
   \<and> shown utc (candidate (LocalTime utc 1704103200000) 9 0 + msPerDay)
   \<and> inDateRange (UTC utc (candidate (LocalTime utc 1704103200000) 9 0))
   \<and> inDateRange (UTC utc (candidate (LocalTime utc 1704103200000) 9 0 + msPerDay))
   \<and> shown newYork (candidate (LocalTime newYork 1709996400000) 9 0)
   \<and> shown newYork (candidate (LocalTime newYork 1709996400000) 9 0 + msPerDay)
   \<and> inDateRange (UTC newYork (candidate (LocalTime newYork 1709996400000) 9 0))
   \<and> inDateRange (UTC newYork (candidate (LocalTime newYork 1709996400000) 9 0 + msPerDay))
   \<and> newDate newYork 2024 2 9 10 0 = Num 1709996400000
   \<and> newDate newYork 2024 2 9 9 0 = Num 1709992800000
   \<and> calculateNextAlarmTime newYork ''09:00'' 1709996400000 1709996400000
       = newDate newYork 2024 2 10 9 0
   \<and> newDate newYork 2024 2 10 9 0 = Num (1709992800000 + 23 * msPerHour)"
  using C1_next_occurrence[of "''11:30''" 11 30 utc 1704103200000 1704103200000]
    C1_next_occurrence[of "''09:00''" 9 0 utc 1704103200000 1704103200000]
    C1_next_occurrence[of "''09:00''" 9 0 newYork 1709996400000 1709996400000]
  by code_simp

text \<open>In New York at 00:30 on 2024-03-10, the night on which the clocks go from 02:00
  to 03:00, \<^verbatim>\<open>02:30\<close> gives the instant at which the local time is 03:30 of that day.\<close>

theorem C1_skipped_local_time:
  "parseHHMM ''02:30'' = Some (2, 30)
   \<and> newDate newYork 2024 2 10 0 30 = Num 1710048600000
   \<and> calculateNextAlarmTime newYork ''02:30'' 1710048600000 1710048600000 = Num 1710055800000
   \<and> Day (LocalTime newYork 1710055800000) = Day (LocalTime newYork 1710048600000)
   \<and> HourFromTime (LocalTime newYork 1710055800000) = 3
   \<and> MinFromTime (LocalTime newYork 1710055800000) = 30
   \<and> newDate newYork 2024 2 10 3 30 = Num 1710055800000"
  by code_simp

section \<open>Verification: no validation of the time of day\<close>

lemma element_NaN:
  "element parts 0 = NaN \<or> element parts (Suc 0) = NaN \<Longrightarrow>
   setHours z (element parts 0) (element parts (Suc 0)) (Num 0) (Num 0) (Num t) = NaN"
  by (auto simp: setHours_def MakeTime_def MakeDate_def split: jsnum.splits)

text \<open>
  Claim C3, as the code has it. \<^verbatim>\<open>calculateNextAlarmTime\<close> validates nothing and has no
  error result. For a string \<open>H:M\<close> whose two parts are non-empty runs of decimal digits
  of any value, it takes the start of the local day of the clock reading plus \<open>H\<close> hours
  and \<open>M\<close> minutes as a local time and returns the instant that the zone assigns to it,
  or, when that instant is not after the first clock reading, the instant assigned to
  the local time one calendar day after the local time of that instant; the result is
  an invalid date when the instant is outside the range of \<^verbatim>\<open>Date\<close>. For a string
  without a colon, which has no minute part, it returns an invalid date.
\<close>

theorem C3_no_validation:
  "(list_all isDigit hs \<and> hs \<noteq> [] \<and> list_all isDigit ms \<and> ms \<noteq> [] \<longrightarrow>
      calculateNextAlarmTime z (hs @ CHR '':'' # ms) t0 t1 =
        (case TimeClip (Num (UTC z (candidate (LocalTime z t1) (decimalValue hs)
                                      (decimalValue ms)))) of
           NaN \<Rightarrow> NaN
         | Num v \<Rightarrow> if v \<le> t0 then TimeClip (Num (UTC z (LocalTime z v + msPerDay)))
                    else Num v))
   \<and> (CHR '':'' \<notin> set s \<longrightarrow> calculateNextAlarmTime z s t0 t1 = NaN)"
proof -
  have "calculateNextAlarmTime z s t0 t1 = NaN" if "CHR '':'' \<notin> set s"
  proof -
    have "element (map Number (split_colon s)) (Suc 0) = NaN"
      using that by (simp add: split_colon_plain element_def)
    then show ?thesis
      using element_NaN[of "map Number (split_colon s)" z t1]
      by (simp add: calculateNextAlarmTime_def Let_def jsle_def)
  qed
  then show ?thesis
    by (simp add: calc_digits)
qed

text \<open>In UTC at 2024-01-01T10:00:00, \<^verbatim>\<open>7:75\<close> gives 2024-01-02T08:15:00 and \<^verbatim>\<open>1130\<close>
  gives an invalid date.\<close>

theorem C3_no_validation_witness:
  "list_all isDigit ''7'' \<and> ''7'' \<noteq> [] \<and> list_all isDigit ''75'' \<and> ''75'' \<noteq> []
   \<and> calculateNextAlarmTime utc ''7:75'' 1704103200000 1704103200000 = newDate utc 2024 0 2 8 15
   \<and> CHR '':'' \<notin> set ''1130''
   \<and> calculateNextAlarmTime utc ''1130'' 1704103200000 1704103200000 = NaN"
  using C3_no_validation[of "''7''" "''75''" utc 1704103200000 1704103200000 "''1130''"]
  by code_simp

text \<open>\<^verbatim>\<open>25:00\<close> is not a time of day of the spec's grammar, and in UTC at
  2024-01-01T10:00:00 it yields the trigger instant 2024-01-02T01:00:00.\<close>

theorem C3_out_of_range_accepted:
  "parseHHMM ''25:00'' = None
   \<and> calculateNextAlarmTime utc ''25:00'' 1704103200000 1704103200000 = Num 1704157200000
   \<and> newDate utc 2024 0 2 1 0 = Num 1704157200000"
  by code_simp

section \<open>Verification: runs of the platform primitives\<close>

lemma perform_run: "perform dev c h = (Inr (respond dev h c), h @ [(c, respond dev h c)])"
  by (simp add: perform_def Let_def)

lemmas io_defs = ret_def throw_def await_def tryCatch_def perform_run

lemma orderlyI:
  assumes "\<And>h. \<exists>ext. snd (m h) = h @ ext \<and> list_all succeeded (butlast ext)
              \<and> (\<forall>x. fst (m h) = Inr x \<and> Q x \<longrightarrow> list_all succeeded ext)"
  shows "orderly Q m"
  unfolding orderly_def calls_def
proof (intro allI)
  fix h
  from assms[of h] obtain ext where "snd (m h) = h @ ext" "list_all succeeded (butlast ext)"
    "\<forall>x. fst (m h) = Inr x \<and> Q x \<longrightarrow> list_all succeeded ext" by blast
  then show "take (length h) (snd (m h)) = h
        \<and> list_all succeeded (butlast (drop (length h) (snd (m h))))
        \<and> (\<forall>x. fst (m h) = Inr x \<and> Q x \<longrightarrow> list_all succeeded (drop (length h) (snd (m h))))"
    by simp
qed

lemma orderlyD:
  assumes "orderly Q m"
  obtains ext where "snd (m h) = h @ ext" "calls m h = ext" "list_all succeeded (butlast ext)"
    "\<And>x. fst (m h) = Inr x \<Longrightarrow> Q x \<Longrightarrow> list_all succeeded ext"
proof -
  from assms have a: "take (length h) (snd (m h)) = h"
    "list_all succeeded (butlast (calls m h))"
    "\<And>x. fst (m h) = Inr x \<Longrightarrow> Q x \<Longrightarrow> list_all succeeded (calls m h)"
    by (auto simp: orderly_def)
  have "snd (m h) = take (length h) (snd (m h)) @ drop (length h) (snd (m h))" by simp
  then have "snd (m h) = h @ calls m h" using a(1) by (simp add: calls_def)
  then show ?thesis using that[of "calls m h"] a by simp
qed

lemma orderly_ret: "orderly Q (ret x)"
  by (rule orderlyI) (simp add: ret_def)

lemma orderly_throw: "orderly Q (throw e)"
  by (rule orderlyI) (simp add: throw_def)

lemma orderly_weaken: "orderly P m \<Longrightarrow> (\<And>x. Q x \<Longrightarrow> P x) \<Longrightarrow> orderly Q m"
  by (auto simp: orderly_def)

lemma orderly_await_when:
  assumes m: "orderly P m"
    and k: "\<And>x. P x \<Longrightarrow> orderly Q (k x)"
    and n: "\<And>x h. \<not> P x \<Longrightarrow> snd (k x h) = h \<and> (\<forall>y. fst (k x h) = Inr y \<longrightarrow> \<not> Q y)"
  shows "orderly Q (await m k)"
proof (rule orderlyI)
  fix h
  obtain ext1 where e1: "snd (m h) = h @ ext1" "list_all succeeded (butlast ext1)"
    "\<And>x. fst (m h) = Inr x \<Longrightarrow> P x \<Longrightarrow> list_all succeeded ext1"
    using orderlyD[OF m, of h] by metis
  show "\<exists>ext. snd (await m k h) = h @ ext \<and> list_all succeeded (butlast ext)
              \<and> (\<forall>y. fst (await m k h) = Inr y \<and> Q y \<longrightarrow> list_all succeeded ext)"
  proof (cases "fst (m h)")
    case (Inl e)
    then have "await m k h = (Inl e, h @ ext1)"
      using e1(1) by (cases "m h") (simp add: await_def)
    then show ?thesis using e1(2) by simp
  next
    case (Inr x)
    then have run: "await m k h = k x (h @ ext1)"
      using e1(1) by (cases "m h") (simp add: await_def)
    show ?thesis
    proof (cases "P x")
      case False
      from n[OF False, of "h @ ext1"] show ?thesis
        unfolding run using e1(2) by auto
    next
      case True
      have s1: "list_all succeeded ext1" using e1(3)[OF Inr True] .
      obtain ext2 where e2: "snd (k x (h @ ext1)) = (h @ ext1) @ ext2"
        "list_all succeeded (butlast ext2)"
        "\<And>y. fst (k x (h @ ext1)) = Inr y \<Longrightarrow> Q y \<Longrightarrow> list_all succeeded ext2"
        using orderlyD[OF k[OF True], of "h @ ext1"] by metis
      have "list_all succeeded (butlast (ext1 @ ext2))"
        using s1 e1(2) e2(2) by (simp add: butlast_append)
      moreover have "\<forall>y. fst (k x (h @ ext1)) = Inr y \<and> Q y \<longrightarrow> list_all succeeded (ext1 @ ext2)"
        using s1 e2(3) by auto
      ultimately show ?thesis unfolding run using e2(1) by auto
    qed
  qed
qed

lemma orderly_await:
  assumes "orderly (\<lambda>x. True) m" and "\<And>x. orderly Q (k x)"
  shows "orderly Q (await m k)"
  using assms by (rule orderly_await_when) simp_all

lemma orderly_tryCatch:
  assumes "orderly Q m" and "\<not> Q v"
  shows "orderly Q (tryCatch m (\<lambda>e. ret v))"
proof (rule orderlyI)
  fix h
  obtain ext where e: "snd (m h) = h @ ext" "list_all succeeded (butlast ext)"
    "\<And>x. fst (m h) = Inr x \<Longrightarrow> Q x \<Longrightarrow> list_all succeeded ext"
    using orderlyD[OF assms(1), of h] by metis
  show "\<exists>ext. snd (tryCatch m (\<lambda>e. ret v) h) = h @ ext \<and> list_all succeeded (butlast ext)
              \<and> (\<forall>y. fst (tryCatch m (\<lambda>e. ret v) h) = Inr y \<and> Q y \<longrightarrow> list_all succeeded ext)"
  proof (cases "fst (m h)")
    case (Inl err)
    then have "tryCatch m (\<lambda>e. ret v) h = (Inr v, h @ ext)"
      using e(1) by (cases "m h") (simp add: tryCatch_def ret_def)
    then show ?thesis using e(2) assms(2) by auto
  next
    case (Inr x)
    then have "tryCatch m (\<lambda>e. ret v) h = (Inr x, h @ ext)"
      using e(1) by (cases "m h") (simp add: tryCatch_def)
    then show ?thesis using e(2) e(3)[OF Inr] by auto
  qed
qed

lemma orderly_if:
  "(c \<Longrightarrow> orderly Q a) \<Longrightarrow> (\<not> c \<Longrightarrow> orderly Q b) \<Longrightarrow> orderly Q (if c then a else b)"
  by simp

lemma succeeded_simps:
  "succeeded (GetInfoAsync p, Exists b)"
  "succeeded (MakeDirectoryAsync p, Resolved)"
  "succeeded (DeleteAsync p, Resolved)"
  "succeeded (WriteAsStringAsync p c enc, Resolved)"
  "succeeded (DownloadAsync url p, DownloadResult 200 uri)"
  by (simp_all add: succeeded_def accepted_def isTransfer_def transferSucceeded_def)

lemma orderly_getInfoAsync: "orderly Q (getInfoAsync dev p)"
  by (rule orderlyI)
     (auto simp: getInfoAsync_def io_defs succeeded_simps split: reply.splits)

lemma orderly_makeDirectoryAsync: "orderly Q (makeDirectoryAsync dev p)"
  by (rule orderlyI)
     (auto simp: makeDirectoryAsync_def io_defs succeeded_simps split: reply.splits)

lemma orderly_deleteAsync: "orderly Q (deleteAsync dev p)"
  by (rule orderlyI)
     (auto simp: deleteAsync_def io_defs succeeded_simps split: reply.splits)

lemma orderly_writeAsStringAsync: "orderly Q (writeAsStringAsync dev p c enc)"
  by (rule orderlyI)
     (auto simp: writeAsStringAsync_def io_defs succeeded_simps split: reply.splits)

lemma orderly_downloadAsync: "orderly (\<lambda>(status, uri). status = 200) (downloadAsync dev url p)"
  by (rule orderlyI)
     (auto simp: downloadAsync_def io_defs succeeded_simps split: reply.splits)

lemmas orderly_steps = orderly_ret orderly_throw orderly_getInfoAsync orderly_makeDirectoryAsync
  orderly_deleteAsync orderly_writeAsStringAsync

lemma orderly_ensureDirectoryExists: "orderly Q (ensureDirectoryExists dev)"
  unfolding ensureDirectoryExists_def Let_def
  by (intro orderly_if orderly_await orderly_steps)

lemma orderly_ensureSoundsDirectoryExists: "orderly Q (ensureSoundsDirectoryExists dev)"
  unfolding ensureSoundsDirectoryExists_def Let_def
  by (intro orderly_if orderly_await orderly_steps)

lemma orderly_saveAudioLocally: "orderly (\<lambda>x. x \<noteq> None) (saveAudioLocally dev url)"
proof -
  have t: "orderly (\<lambda>x. x \<noteq> None)
      (await (downloadAsync dev url p) (\<lambda>(status, uri).
             if status = 200 then ret (Some uri) else ret None))" for p
    by (rule orderly_await_when[OF orderly_downloadAsync])
       (auto simp: orderly_ret ret_def)
  show ?thesis
    unfolding saveAudioLocally_def Let_def
    by (intro orderly_if orderly_tryCatch orderly_await orderly_steps
        orderly_ensureDirectoryExists t) simp
qed

lemma orderly_saveNotificationSound: "orderly (\<lambda>x. x \<noteq> None) (saveNotificationSound dev url)"
proof -
  have t: "orderly (\<lambda>x. True)
      (await (downloadAsync dev url p) (\<lambda>(status, uri).
             if status \<noteq> 200 then throw (JsError ''Failed to download audio'') else ret ()))" for p
    by (rule orderly_await_when[OF orderly_downloadAsync])
       (auto simp: orderly_ret throw_def)
  show ?thesis
    unfolding saveNotificationSound_def Let_def
    by (intro orderly_if orderly_tryCatch orderly_await orderly_steps
        orderly_ensureSoundsDirectoryExists t) simp
qed

lemma orderly_getLocalAudioPath: "orderly (\<lambda>x. x \<noteq> None) (getLocalAudioPath dev)"
  unfolding getLocalAudioPath_def Let_def
  by (intro orderly_if orderly_tryCatch orderly_await orderly_steps) simp

lemma orderly_deleteLocalAudio: "orderly (\<lambda>x. False) (deleteLocalAudio dev)"
  unfolding deleteLocalAudio_def Let_def
  by (intro orderly_if orderly_tryCatch orderly_await orderly_steps) simp

lemma orderly_deleteNotificationSound: "orderly (\<lambda>x. False) (deleteNotificationSound dev)"
  unfolding deleteNotificationSound_def Let_def
  by (intro orderly_if orderly_tryCatch orderly_await orderly_steps) simp

section \<open>Verification: the permission gate\<close>

lemmas permission_defs = getPermissionsAsync_def requestPermissionsAsync_def
  Notification_requestPermission_def

lemma permissions_web_without:
  "OS dev = Web \<Longrightarrow> \<not> windowNotification dev \<Longrightarrow>
   requestNotificationPermissions dev h = (Inr False, h)"
  by (simp add: requestNotificationPermissions_def io_defs)

lemma permissions_web_with:
  "OS dev = Web \<Longrightarrow> windowNotification dev \<Longrightarrow>
   requestNotificationPermissions dev h =
     (requestResult NotificationRequestPermission (respond dev h NotificationRequestPermission),
      h @ [(NotificationRequestPermission, respond dev h NotificationRequestPermission)])"
  by (simp add: requestNotificationPermissions_def io_defs permission_defs requestResult_def
      split: reply.splits)

lemma permissions_native_granted:
  "OS dev \<noteq> Web \<Longrightarrow> respond dev h GetPermissionsAsync = PermissionStatus ''granted'' \<Longrightarrow>
   requestNotificationPermissions dev h =
     (Inr True, h @ [(GetPermissionsAsync, PermissionStatus ''granted'')])"
  by (simp add: requestNotificationPermissions_def io_defs permission_defs)

lemma permissions_native_rejected:
  "OS dev \<noteq> Web \<Longrightarrow> permissionStatus (respond dev h GetPermissionsAsync) = None \<Longrightarrow>
   requestNotificationPermissions dev h =
     (Inl (Rejection GetPermissionsAsync),
      h @ [(GetPermissionsAsync, respond dev h GetPermissionsAsync)])"
  by (simp add: requestNotificationPermissions_def io_defs permission_defs permissionStatus_def
      split: reply.splits)

lemma permissions_native_other:
  assumes "OS dev \<noteq> Web" "permissionStatus (respond dev h GetPermissionsAsync) = Some s"
    "s \<noteq> ''granted''"
  shows "requestNotificationPermissions dev h =
     (let h1 = h @ [(GetPermissionsAsync, PermissionStatus s)];
          r = respond dev h1 RequestPermissionsAsync
      in (requestResult RequestPermissionsAsync r, h1 @ [(RequestPermissionsAsync, r)]))"
  using assms
  by (simp add: requestNotificationPermissions_def io_defs permission_defs permissionStatus_def
      requestResult_def Let_def split: reply.splits)

text \<open>
  Claim C8, as the code has it. In a browser without the \<^verbatim>\<open>Notification\<close> interface the
  result is false and no call is made. On a phone, when the current status is
  \<^verbatim>\<open>granted\<close> the result is true and no consent request is made; when the status query
  is rejected the function raises without a consent request; for any other status there
  is exactly one consent request and the result is the result of that request. In a
  browser with the \<^verbatim>\<open>Notification\<close> interface, the current status is not read:
  whatever it is, there is exactly one consent request and the result is the result of
  that request. No call makes more than one consent request.
\<close>

theorem C8_consent_requests:
  "(let (res, h') = requestNotificationPermissions dev h; new = drop (length h) h' in
     (OS dev = Web \<and> \<not> windowNotification dev \<longrightarrow> res = Inr False \<and> new = [])
   \<and> (OS dev = Web \<and> windowNotification dev \<longrightarrow>
        consentRequests new = 1
        \<and> fst (last new) = NotificationRequestPermission
        \<and> res = requestResult NotificationRequestPermission (snd (last new)))
   \<and> (OS dev \<noteq> Web \<and> respond dev h GetPermissionsAsync = PermissionStatus ''granted'' \<longrightarrow>
        res = Inr True \<and> consentRequests new = 0)
   \<and> (OS dev \<noteq> Web \<and> permissionStatus (respond dev h GetPermissionsAsync) = None \<longrightarrow>
        isl res \<and> consentRequests new = 0)
   \<and> (OS dev \<noteq> Web \<and> permissionStatus (respond dev h GetPermissionsAsync) = Some s
        \<and> s \<noteq> ''granted'' \<longrightarrow>
        consentRequests new = 1
        \<and> fst (last new) = RequestPermissionsAsync
        \<and> res = requestResult RequestPermissionsAsync (snd (last new)))
   \<and> consentRequests new \<le> 1)"
proof (cases "OS dev = Web")
  case True
  then show ?thesis
    by (cases "windowNotification dev")
       (simp_all add: permissions_web_without permissions_web_with consentRequests_def
          isConsentRequest_def)
next
  case False
  show ?thesis
  proof (cases "permissionStatus (respond dev h GetPermissionsAsync)")
    case None
    then show ?thesis using False
      by (auto simp: permissions_native_rejected consentRequests_def isConsentRequest_def
          permissionStatus_def)
  next
    case (Some s')
    then have r: "respond dev h GetPermissionsAsync = PermissionStatus s'"
      by (simp add: permissionStatus_def split: reply.splits)
    show ?thesis
    proof (cases "s' = ''granted''")
      case True
      then show ?thesis using False r Some
        by (simp add: permissions_native_granted consentRequests_def isConsentRequest_def)
    next
      case g: False
      show ?thesis using False Some g
        by (simp add: permissions_native_other[OF False Some g] Let_def consentRequests_def
            isConsentRequest_def r permissionStatus_def)
    qed
  qed
qed

text \<open>A phone whose status is undetermined and whose user grants: one request, true.\<close>

theorem C8_consent_requests_witness:
  "OS phone \<noteq> Web
   \<and> permissionStatus (respond phone [] GetPermissionsAsync) = Some ''undetermined''
   \<and> ''undetermined'' \<noteq> ''granted''
   \<and> requestNotificationPermissions phone [] =
       (Inr True, [(GetPermissionsAsync, PermissionStatus ''undetermined''),
                   (RequestPermissionsAsync, PermissionStatus ''granted'')])
   \<and> consentRequests (snd (requestNotificationPermissions phone [])) = 1"
  using C8_consent_requests[of phone "[]" "''undetermined''"]
  by code_simp

text \<open>In a browser where the permission is already granted, the call still makes a
  consent request (and returns true).\<close>

theorem C8_web_always_requests:
  "OS browser = Web \<and> windowNotification browser
   \<and> respond browser [] NotificationRequestPermission = PermissionStatus ''granted''
   \<and> requestNotificationPermissions browser [] =
       (Inr True, [(NotificationRequestPermission, PermissionStatus ''granted'')])
   \<and> consentRequests (snd (requestNotificationPermissions browser [])) = 1"
  by code_simp

section \<open>Verification: scheduling\<close>

lemma cancelExistingAlarm_web:
  "OS dev = Web \<Longrightarrow> cancelExistingAlarm dev h = (Inr (), h)"
  by (simp add: cancelExistingAlarm_def io_defs)

lemma cancelExistingAlarm_native:
  "OS dev \<noteq> Web \<Longrightarrow>
   cancelExistingAlarm dev h =
     (Inr (), h @ [(CancelScheduledNotificationAsync ALARM_NOTIFICATION_ID,
                    respond dev h (CancelScheduledNotificationAsync ALARM_NOTIFICATION_ID))])"
  by (simp add: cancelExistingAlarm_def io_defs cancelScheduledNotificationAsync_def
      split: reply.splits)

lemma scheduleNotificationAsync_run:
  "scheduleNotificationAsync dev request h =
     ((if respond dev h (ScheduleNotificationAsync request) = Resolved then Inr ()
       else Inl (Rejection (ScheduleNotificationAsync request))),
      h @ [(ScheduleNotificationAsync request, respond dev h (ScheduleNotificationAsync request))])"
  by (simp add: scheduleNotificationAsync_def io_defs split: reply.splits)

lemma scheduleAlarm_refused:
  assumes "requestNotificationPermissions dev h = (p, h1)" "p \<noteq> Inr True"
  shows "snd (scheduleAlarm dev clk params h) = h1
       \<and> \<not> success (projr (fst (scheduleAlarm dev clk params h)))
       \<and> \<not> isl (fst (scheduleAlarm dev clk params h))"
  using assms by (cases p) (auto simp: scheduleAlarm_def io_defs)

lemma scheduleAlarm_web:
  assumes "OS dev = Web" "requestNotificationPermissions dev h = (Inr True, h1)"
  shows "snd (scheduleAlarm dev clk params h) = h1"
  using assms by (simp add: scheduleAlarm_def io_defs cancelExistingAlarm_web Let_def)

lemma scheduleAlarm_native:
  assumes "OS dev \<noteq> Web" "requestNotificationPermissions dev h = (Inr True, h1)"
  shows "scheduleAlarm dev clk params h =
    (let h2 = h1 @ [(CancelScheduledNotificationAsync ALARM_NOTIFICATION_ID,
                     respond dev h1 (CancelScheduledNotificationAsync ALARM_NOTIFICATION_ID))];
         alarmTime = calculateNextAlarmTime (timeZone dev) (wakeUpTime params) (now0 clk) (now1 clk);
         request = \<lparr>request_identifier = ALARM_NOTIFICATION_ID,
                    title = ''Good Morning!'',
                    body = name params @ '', your personalized morning audio is ready.'',
                    sound = (if falsy (soundFileName params) then DefaultSound
                             else SoundFile (the (soundFileName params))),
                    priority = ''max'',
                    interruptionLevel = ''timeSensitive'',
                    data_type = ''morning-alarm'',
                    trigger_seconds =
                      Math_max (Num 1) (floorDiv (jssub alarmTime (Num (now2 clk))) 1000)\<rparr>;
         r = respond dev h2 (ScheduleNotificationAsync request)
     in (Inr (if r = Resolved
              then \<lparr>success = True, error = None, scheduledTime = Some alarmTime\<rparr>
              else \<lparr>success = False,
                    error = Some ''Failed to schedule alarm. Please try again.'',
                    scheduledTime = None\<rparr>),
         h2 @ [(ScheduleNotificationAsync request, r)]))"
  using assms
  by (simp add: scheduleAlarm_def cancelExistingAlarm_native scheduleNotificationAsync_run
      ret_def throw_def await_def tryCatch_def Let_def)

text \<open>
  Claim C9, as the code has it. On a phone, when \<^verbatim>\<open>scheduleAlarm\<close> succeeds with the
  trigger instant \<open>T\<close>, the delay registered with the one-shot scheduler is the whole
  number of seconds \<open>max(1, floor((T - now) / 1000))\<close>, where \<open>now\<close> is the clock reading
  at registration. It is at least one second, it is at most the spec's
  \<open>max(1 second, T - now)\<close>, and it is less than one second below it; so delivery is at
  least one second after registration also when \<open>T\<close> has already passed.
\<close>

theorem C9_registration_delay:
  assumes "OS dev \<noteq> Web"
    and "scheduleAlarm dev clk params h = (Inr res, h')"
    and "success res"
    and "calculateNextAlarmTime (timeZone dev) (wakeUpTime params) (now0 clk) (now1 clk) = Num T"
  shows "map_option trigger_seconds (lastScheduleRequest h')
           = Some (Num (max 1 ((T - now2 clk) div 1000)))
       \<and> scheduledTime res = Some (Num T)
       \<and> 1000 \<le> 1000 * max 1 ((T - now2 clk) div 1000)
       \<and> 1000 * max 1 ((T - now2 clk) div 1000) \<le> specDelayMs T (now2 clk)
       \<and> specDelayMs T (now2 clk) < 1000 * max 1 ((T - now2 clk) div 1000) + 1000"
proof -
  obtain p h1 where p: "requestNotificationPermissions dev h = (p, h1)"
    by (cases "requestNotificationPermissions dev h")
  have "p = Inr True"
  proof (rule ccontr)
    assume "p \<noteq> Inr True"
    from scheduleAlarm_refused[OF p this, of clk params] assms(2,3) show False by simp
  qed
  with p have g: "requestNotificationPermissions dev h = (Inr True, h1)" by simp
  have run: "map_option trigger_seconds (lastScheduleRequest h')
           = Some (Num (max 1 ((T - now2 clk) div 1000)))
       \<and> scheduledTime res = Some (Num T)"
    using assms(2,3,4) unfolding scheduleAlarm_native[OF assms(1) g]
    by (auto simp: Let_def lastScheduleRequest_def Math_max_def floorDiv_def jssub_def
        split: if_splits)
  have "T - now2 clk = 1000 * ((T - now2 clk) div 1000) + (T - now2 clk) mod 1000" by simp
  moreover have "0 \<le> (T - now2 clk) mod 1000" "(T - now2 clk) mod 1000 < 1000" by simp_all
  ultimately have d: "1000 * ((T - now2 clk) div 1000) \<le> T - now2 clk"
      "T - now2 clk < 1000 * ((T - now2 clk) div 1000) + 1000"
    by linarith+
  have arith: "1000 \<le> 1000 * max 1 ((T - now2 clk) div 1000)
       \<and> 1000 * max 1 ((T - now2 clk) div 1000) \<le> specDelayMs T (now2 clk)
       \<and> specDelayMs T (now2 clk) < 1000 * max 1 ((T - now2 clk) div 1000) + 1000"
    unfolding specDelayMs_def using d by (simp add: max_def)
  show ?thesis using run arith by simp
qed

text \<open>At 10:00:00.250 for 11:30 the spec's delay is 5399.750 s and the registered one
  5399 s.\<close>

theorem C9_registration_delay_witness:
  "OS phone \<noteq> Web
   \<and> success (projr (fst (scheduleAlarm phone
         \<lparr>now0 = 1704103200000, now1 = 1704103200000, now2 = 1704103200250\<rparr>
         \<lparr>wakeUpTime = ''11:30'', name = ''Ann'', soundFileName = None\<rparr> [])))
   \<and> calculateNextAlarmTime (timeZone phone) ''11:30'' 1704103200000 1704103200000 = Num 1704108600000
   \<and> map_option trigger_seconds (lastScheduleRequest (snd (scheduleAlarm phone
         \<lparr>now0 = 1704103200000, now1 = 1704103200000, now2 = 1704103200250\<rparr>
         \<lparr>wakeUpTime = ''11:30'', name = ''Ann'', soundFileName = None\<rparr> [])))
       = Some (Num 5399)
   \<and> specDelayMs 1704108600000 1704103200250 = 5399750"
  using C9_registration_delay[of phone
      "\<lparr>now0 = 1704103200000, now1 = 1704103200000, now2 = 1704103200250\<rparr>"
      "\<lparr>wakeUpTime = ''11:30'', name = ''Ann'', soundFileName = None\<rparr>" "[]"
      "projr (fst (scheduleAlarm phone
         \<lparr>now0 = 1704103200000, now1 = 1704103200000, now2 = 1704103200250\<rparr>
         \<lparr>wakeUpTime = ''11:30'', name = ''Ann'', soundFileName = None\<rparr> []))"
      "snd (scheduleAlarm phone
         \<lparr>now0 = 1704103200000, now1 = 1704103200000, now2 = 1704103200250\<rparr>
         \<lparr>wakeUpTime = ''11:30'', name = ''Ann'', soundFileName = None\<rparr> [])"
      1704108600000]
  by code_simp

text \<open>At 10:59:58.500 for 11:00 the spec's delay is 1500 ms and the registered one is
  1 s.\<close>

theorem C9_delay_is_whole_seconds:
  "calculateNextAlarmTime (timeZone phone) ''11:00'' 1704106798500 1704106798500 = Num 1704106800000
   \<and> specDelayMs 1704106800000 1704106798500 = 1500
   \<and> map_option trigger_seconds (lastScheduleRequest (snd (scheduleAlarm phone
         \<lparr>now0 = 1704106798500, now1 = 1704106798500, now2 = 1704106798500\<rparr>
         \<lparr>wakeUpTime = ''11:00'', name = ''Ann'', soundFileName = None\<rparr> [])))
       = Some (Num 1)"
  by code_simp

section \<open>Verification: a single registration\<close>

lemma scheduled_snoc: "scheduled (h @ [x]) = registerStep (scheduled h) x"
  by (simp add: scheduled_def)

lemma throughout_iff:
  "atMostOneThroughout h = (\<forall>k \<le> length h. length (alarms (take k h)) \<le> 1)"
  by (auto simp: atMostOneThroughout_def list_all_iff less_Suc_eq_le simp del: upt_Suc)

lemma throughout_snoc:
  "atMostOneThroughout (h @ [x]) = (atMostOneThroughout h \<and> length (alarms (h @ [x])) \<le> 1)"
proof
  assume a: "atMostOneThroughout (h @ [x])"
  have "length (alarms (take k h)) \<le> 1" if "k \<le> length h" for k
    using a[unfolded throughout_iff, rule_format, of k] that by simp
  moreover have "length (alarms (h @ [x])) \<le> 1"
    using a[unfolded throughout_iff, rule_format, of "Suc (length h)"] by simp
  ultimately show "atMostOneThroughout h \<and> length (alarms (h @ [x])) \<le> 1"
    by (simp add: throughout_iff)
next
  assume a: "atMostOneThroughout h \<and> length (alarms (h @ [x])) \<le> 1"
  have "length (alarms (take k (h @ [x]))) \<le> 1" if "k \<le> length (h @ [x])" for k
  proof (cases "k \<le> length h")
    case True
    then show ?thesis using a by (simp add: throughout_iff)
  next
    case False
    then have "k = Suc (length h)" using that by simp
    then show ?thesis using a by simp
  qed
  then show "atMostOneThroughout (h @ [x])" by (simp only: throughout_iff) blast
qed

lemma registerStep_permission: "permissionCall x \<Longrightarrow> registerStep regs x = regs"
  by (cases x) (auto simp: permissionCall_def)

lemma scheduled_append_permission:
  "list_all permissionCall ext \<Longrightarrow> scheduled (h @ ext) = scheduled h"
proof (induction ext rule: rev_induct)
  case Nil
  then show ?case by simp
next
  case (snoc x xs)
  then show ?case
    using scheduled_snoc[of "h @ xs" x] by (simp add: registerStep_permission)
qed

lemma throughout_append_permission:
  "list_all permissionCall ext \<Longrightarrow> atMostOneThroughout (h @ ext) = atMostOneThroughout h"
proof (induction ext rule: rev_induct)
  case Nil
  then show ?case by simp
next
  case (snoc x xs)
  have "atMostOneThroughout ((h @ xs) @ [x])
      = (atMostOneThroughout (h @ xs) \<and> length (alarms ((h @ xs) @ [x])) \<le> 1)"
    by (rule throughout_snoc)
  moreover have "alarms ((h @ xs) @ [x]) = alarms (h @ xs)"
    using snoc.prems scheduled_append_permission[of "xs @ [x]" h]
      scheduled_append_permission[of xs h]
    by (simp add: alarms_def)
  moreover have "atMostOneThroughout (h @ xs) \<longrightarrow> length (alarms (h @ xs)) \<le> 1"
    by (simp add: atMostOneThroughout_def list_all_iff)
  ultimately show ?case using snoc by auto
qed

lemma permissions_trace:
  obtains ext where "snd (requestNotificationPermissions dev h) = h @ ext"
    and "list_all permissionCall ext"
proof (cases "OS dev = Web")
  case True
  then show ?thesis
    using that[of "[]"]
      that[of "[(NotificationRequestPermission, respond dev h NotificationRequestPermission)]"]
    by (cases "windowNotification dev")
       (simp_all add: permissions_web_without permissions_web_with permissionCall_def)
next
  case False
  show ?thesis
  proof (cases "permissionStatus (respond dev h GetPermissionsAsync)")
    case None
    then show ?thesis
      using that[of "[(GetPermissionsAsync, respond dev h GetPermissionsAsync)]"] False
      by (simp add: permissions_native_rejected permissionCall_def)
  next
    case (Some s)
    then have r: "respond dev h GetPermissionsAsync = PermissionStatus s"
      by (simp add: permissionStatus_def split: reply.splits)
    show ?thesis
    proof (cases "s = ''granted''")
      case True
      then show ?thesis
        using that[of "[(GetPermissionsAsync, PermissionStatus ''granted'')]"] False r
        by (simp add: permissions_native_granted permissionCall_def)
    next
      case g: False
      show ?thesis
        using that[of "[(GetPermissionsAsync, PermissionStatus s),
            (RequestPermissionsAsync,
             respond dev (h @ [(GetPermissionsAsync, PermissionStatus s)]) RequestPermissionsAsync)]"]
        by (simp add: permissions_native_other[OF False Some g] Let_def permissionCall_def)
    qed
  qed
qed

lemma alarms_after_cancel:
  "alarms (h @ [(CancelScheduledNotificationAsync ALARM_NOTIFICATION_ID, Resolved)]) = []"
  by (simp add: alarms_def scheduled_snoc filter_empty_conv)

lemma alarms_after_schedule:
  "alarms (h @ [(ScheduleNotificationAsync request, r)]) =
     (if r = Resolved \<and> request_identifier request = ALARM_NOTIFICATION_ID
      then alarms h @ [request] else alarms h)"
  by (cases r) (simp_all add: alarms_def scheduled_snoc)

lemma operate_throughout:
  assumes cw: "cancelWorks dev" and inv: "atMostOneThroughout h"
  shows "atMostOneThroughout (operate dev op h)"
proof (cases op)
  case Cancel
  show ?thesis
  proof (cases "OS dev = Web")
    case True
    then show ?thesis using inv Cancel by (simp add: operate_def cancelExistingAlarm_web)
  next
    case False
    then show ?thesis using inv Cancel cw
      by (simp add: operate_def cancelExistingAlarm_native cancelWorks_def throughout_snoc
          alarms_after_cancel)
  qed
next
  case (Schedule clk params)
  obtain ext where ext: "snd (requestNotificationPermissions dev h) = h @ ext"
    "list_all permissionCall ext"
    by (rule permissions_trace)
  obtain p where p: "requestNotificationPermissions dev h = (p, h @ ext)"
    using ext(1) by (cases "requestNotificationPermissions dev h") simp
  have inv1: "atMostOneThroughout (h @ ext)"
    using inv ext(2) by (simp add: throughout_append_permission)
  show ?thesis
  proof (cases "p = Inr True")
    case False
    then show ?thesis using scheduleAlarm_refused[OF p False, of clk params] inv1 Schedule
      by (simp add: operate_def)
  next
    case True
    with p have g: "requestNotificationPermissions dev h = (Inr True, h @ ext)" by simp
    show ?thesis
    proof (cases "OS dev = Web")
      case True
      then show ?thesis using scheduleAlarm_web[OF True g, of clk params] inv1 Schedule
        by (simp add: operate_def)
    next
      case False
      have c: "respond dev (h @ ext) (CancelScheduledNotificationAsync ALARM_NOTIFICATION_ID)
          = Resolved"
        using cw by (simp add: cancelWorks_def)
      have "atMostOneThroughout
          (((h @ ext) @ [(CancelScheduledNotificationAsync ALARM_NOTIFICATION_ID, Resolved)])
            @ [(ScheduleNotificationAsync request, r)])" for request r
        using inv1
        by (simp only: throughout_snoc alarms_after_schedule alarms_after_cancel) simp
      then show ?thesis using Schedule c
        by (simp add: operate_def scheduleAlarm_native[OF False g] Let_def)
    qed
  qed
qed

lemma operateAll_throughout:
  "cancelWorks dev \<Longrightarrow> atMostOneThroughout h \<Longrightarrow> atMostOneThroughout (operateAll dev ops h)"
  unfolding operateAll_def
  by (induction ops arbitrary: h) (simp_all add: operate_throughout)

lemma schedule_success_alarms:
  assumes cw: "cancelWorks dev" and os: "OS dev \<noteq> Web"
    and ok: "success (projr (fst (scheduleAlarm dev clk params h)))"
  shows "alarms (snd (scheduleAlarm dev clk params h)) =
     [\<lparr>request_identifier = ALARM_NOTIFICATION_ID,
       title = ''Good Morning!'',
       body = name params @ '', your personalized morning audio is ready.'',
       sound = (if falsy (soundFileName params) then DefaultSound
                else SoundFile (the (soundFileName params))),
       priority = ''max'',
       interruptionLevel = ''timeSensitive'',
       data_type = ''morning-alarm'',
       trigger_seconds =
         Math_max (Num 1)
           (floorDiv (jssub (calculateNextAlarmTime (timeZone dev) (wakeUpTime params) (now0 clk) (now1 clk))
                            (Num (now2 clk))) 1000)\<rparr>]"
proof -
  obtain p h1 where p: "requestNotificationPermissions dev h = (p, h1)"
    by (cases "requestNotificationPermissions dev h")
  have "p = Inr True"
  proof (rule ccontr)
    assume "p \<noteq> Inr True"
    from scheduleAlarm_refused[OF p this, of clk params] ok show False by simp
  qed
  with p have g: "requestNotificationPermissions dev h = (Inr True, h1)" by simp
  have c: "respond dev h1 (CancelScheduledNotificationAsync ALARM_NOTIFICATION_ID) = Resolved"
    using cw by (simp add: cancelWorks_def)
  have split: "h1 @ [a, b] = (h1 @ [a]) @ [b]" for a b :: "call \<times> reply" by simp
  show ?thesis
    using ok unfolding scheduleAlarm_native[OF os g]
    by (simp add: Let_def c split alarms_after_schedule alarms_after_cancel del: append_assoc
        split: if_splits)
qed

text \<open>
  Claim C2, as the code has it. On a device whose notification centre carries out the
  cancellations, every sequence of schedule and cancel operations keeps at most one
  registration under the identifier \<^verbatim>\<open>morning-alarm\<close> after each call of the trace:
  \<^verbatim>\<open>scheduleAlarm\<close> cancels under that identifier before it registers. On a phone, two
  calls of \<^verbatim>\<open>scheduleAlarm\<close> of which the second succeeds leave exactly one
  registration, built from the parameters and clock readings of the second call.
\<close>

theorem C2_single_registration:
  "(cancelWorks dev \<and> atMostOneThroughout h \<longrightarrow>
      atMostOneThroughout (operateAll dev ops h))
   \<and> (cancelWorks dev \<and> OS dev \<noteq> Web
       \<and> success (projr (fst (scheduleAlarm dev clk2 params2
                    (operate dev (Schedule clk1 params1) h)))) \<longrightarrow>
      alarms (operateAll dev [Schedule clk1 params1, Schedule clk2 params2] h) =
        [\<lparr>request_identifier = ALARM_NOTIFICATION_ID,
          title = ''Good Morning!'',
          body = name params2 @ '', your personalized morning audio is ready.'',
          sound = (if falsy (soundFileName params2) then DefaultSound
                   else SoundFile (the (soundFileName params2))),
          priority = ''max'',
          interruptionLevel = ''timeSensitive'',
          data_type = ''morning-alarm'',
          trigger_seconds =
            Math_max (Num 1)
              (floorDiv (jssub (calculateNextAlarmTime (timeZone dev) (wakeUpTime params2) (now0 clk2) (now1 clk2))
                               (Num (now2 clk2))) 1000)\<rparr>])"
  using operateAll_throughout[of dev h ops]
    schedule_success_alarms[of dev clk2 params2 "operate dev (Schedule clk1 params1) h"]
  by (simp add: operateAll_def operate_def)

text \<open>Two calls on the working phone, for Ann at 11:30 and then for Bob at 06:45.\<close>

theorem C2_single_registration_witness:
  "cancelWorks phone \<and> atMostOneThroughout [] \<and> OS phone \<noteq> Web
   \<and> success (projr (fst (scheduleAlarm phone
         \<lparr>now0 = 1704103260000, now1 = 1704103260000, now2 = 1704103260000\<rparr>
         \<lparr>wakeUpTime = ''06:45'', name = ''Bob'', soundFileName = Some ''morning-alarm-notification.wav''\<rparr>
         (operate phone (Schedule \<lparr>now0 = 1704103200000, now1 = 1704103200000, now2 = 1704103200000\<rparr>
             \<lparr>wakeUpTime = ''11:30'', name = ''Ann'', soundFileName = None\<rparr>) []))))
   \<and> atMostOneThroughout (operateAll phone
        [Schedule \<lparr>now0 = 1704103200000, now1 = 1704103200000, now2 = 1704103200000\<rparr>
             \<lparr>wakeUpTime = ''11:30'', name = ''Ann'', soundFileName = None\<rparr>,
         Schedule \<lparr>now0 = 1704103260000, now1 = 1704103260000, now2 = 1704103260000\<rparr>
             \<lparr>wakeUpTime = ''06:45'', name = ''Bob'', soundFileName = Some ''morning-alarm-notification.wav''\<rparr>] [])
   \<and> alarms (operateAll phone
        [Schedule \<lparr>now0 = 1704103200000, now1 = 1704103200000, now2 = 1704103200000\<rparr>
             \<lparr>wakeUpTime = ''11:30'', name = ''Ann'', soundFileName = None\<rparr>,
         Schedule \<lparr>now0 = 1704103260000, now1 = 1704103260000, now2 = 1704103260000\<rparr>
             \<lparr>wakeUpTime = ''06:45'', name = ''Bob'', soundFileName = Some ''morning-alarm-notification.wav''\<rparr>] [])
       = [\<lparr>request_identifier = ''morning-alarm'',
           title = ''Good Morning!'',
           body = ''Bob, your personalized morning audio is ready.'',
           sound = SoundFile ''morning-alarm-notification.wav'',
           priority = ''max'',
           interruptionLevel = ''timeSensitive'',
           data_type = ''morning-alarm'',
           trigger_seconds = Num 74640\<rparr>]"
proof -
  have cw: "cancelWorks phone"
    by (simp add: cancelWorks_def phone_def working_def)
  have e: "atMostOneThroughout [] \<and> OS phone \<noteq> Web
   \<and> success (projr (fst (scheduleAlarm phone
         \<lparr>now0 = 1704103260000, now1 = 1704103260000, now2 = 1704103260000\<rparr>
         \<lparr>wakeUpTime = ''06:45'', name = ''Bob'', soundFileName = Some ''morning-alarm-notification.wav''\<rparr>
         (operate phone (Schedule \<lparr>now0 = 1704103200000, now1 = 1704103200000, now2 = 1704103200000\<rparr>
             \<lparr>wakeUpTime = ''11:30'', name = ''Ann'', soundFileName = None\<rparr>) []))))"
    by code_simp
  have v: "Math_max (Num 1)
              (floorDiv (jssub (calculateNextAlarmTime (timeZone phone) ''06:45'' 1704103260000 1704103260000)
                               (Num 1704103260000)) 1000) = Num 74640"
     "falsy (Some ''morning-alarm-notification.wav'') = False"
     "ALARM_NOTIFICATION_ID = ''morning-alarm''"
    by code_simp+
  show ?thesis
    using C2_single_registration[of phone "[]"
        "[Schedule \<lparr>now0 = 1704103200000, now1 = 1704103200000, now2 = 1704103200000\<rparr>
             \<lparr>wakeUpTime = ''11:30'', name = ''Ann'', soundFileName = None\<rparr>,
         Schedule \<lparr>now0 = 1704103260000, now1 = 1704103260000, now2 = 1704103260000\<rparr>
             \<lparr>wakeUpTime = ''06:45'', name = ''Bob'', soundFileName = Some ''morning-alarm-notification.wav''\<rparr>]"
        "\<lparr>now0 = 1704103260000, now1 = 1704103260000, now2 = 1704103260000\<rparr>"
        "\<lparr>wakeUpTime = ''06:45'', name = ''Bob'', soundFileName = Some ''morning-alarm-notification.wav''\<rparr>"
        "\<lparr>now0 = 1704103200000, now1 = 1704103200000, now2 = 1704103200000\<rparr>"
        "\<lparr>wakeUpTime = ''11:30'', name = ''Ann'', soundFileName = None\<rparr>"]
      cw e
    by (simp add: v)
qed

text \<open>In the browser both calls report success and no registration exists.\<close>

theorem C2_web_registers_nothing:
  "success (projr (fst (scheduleAlarm browser
         \<lparr>now0 = 1704103200000, now1 = 1704103200000, now2 = 1704103200000\<rparr>
         \<lparr>wakeUpTime = ''11:30'', name = ''Ann'', soundFileName = None\<rparr> [])))
   \<and> success (projr (fst (scheduleAlarm browser
         \<lparr>now0 = 1704103260000, now1 = 1704103260000, now2 = 1704103260000\<rparr>
         \<lparr>wakeUpTime = ''06:45'', name = ''Bob'', soundFileName = None\<rparr>
         (operate browser (Schedule \<lparr>now0 = 1704103200000, now1 = 1704103200000, now2 = 1704103200000\<rparr>
             \<lparr>wakeUpTime = ''11:30'', name = ''Ann'', soundFileName = None\<rparr>) []))))
   \<and> alarms (operateAll browser
        [Schedule \<lparr>now0 = 1704103200000, now1 = 1704103200000, now2 = 1704103200000\<rparr>
             \<lparr>wakeUpTime = ''11:30'', name = ''Ann'', soundFileName = None\<rparr>,
         Schedule \<lparr>now0 = 1704103260000, now1 = 1704103260000, now2 = 1704103260000\<rparr>
             \<lparr>wakeUpTime = ''06:45'', name = ''Bob'', soundFileName = None\<rparr>] []) = []"
  by code_simp

section \<open>Verification: the orchestrator without a cached notification sound\<close>

lemma falsy_None: "falsy None"
  by (simp add: falsy_def)

lemma scheduleAlarm_total: "\<not> isl (fst (scheduleAlarm dev clk params h))"
  by (simp add: scheduleAlarm_def tryCatch_def ret_def split: prod.splits sum.splits)

lemma scheduleAlarm_success_sound:
  assumes os: "OS dev \<noteq> Web" and ok: "success (projr (fst (scheduleAlarm dev clk params h)))"
  shows "map_option sound (lastScheduleRequest (snd (scheduleAlarm dev clk params h)))
     = Some (if falsy (soundFileName params) then DefaultSound
             else SoundFile (the (soundFileName params)))"
proof -
  obtain p h1 where p: "requestNotificationPermissions dev h = (p, h1)"
    by (cases "requestNotificationPermissions dev h")
  have "p = Inr True"
  proof (rule ccontr)
    assume "p \<noteq> Inr True"
    from scheduleAlarm_refused[OF p this, of clk params] ok show False by simp
  qed
  with p have g: "requestNotificationPermissions dev h = (Inr True, h1)" by simp
  show ?thesis
    unfolding scheduleAlarm_native[OF os g]
    by (simp add: Let_def lastScheduleRequest_def)
qed

lemma scheduleAlarm_web_registers_nothing:
  assumes "OS dev = Web"
  shows "scheduled (snd (scheduleAlarm dev clk params h)) = scheduled h"
proof -
  obtain ext where ext: "snd (requestNotificationPermissions dev h) = h @ ext"
    "list_all permissionCall ext"
    by (rule permissions_trace)
  obtain p where p: "requestNotificationPermissions dev h = (p, h @ ext)"
    using ext(1) by (cases "requestNotificationPermissions dev h") simp
  have "snd (scheduleAlarm dev clk params h) = h @ ext"
  proof (cases "p = Inr True")
    case False
    then show ?thesis using scheduleAlarm_refused[OF p False, of clk params] by simp
  next
    case True
    then show ?thesis using scheduleAlarm_web[OF assms, of h "h @ ext" clk params] p by simp
  qed
  then show ?thesis using ext(2) by (simp add: scheduled_append_permission)
qed

lemma saves_web:
  assumes "OS dev = Web"
  shows "saveAudioLocally dev url h = (Inr (Some url), h)"
    and "saveNotificationSound dev url h = (Inr None, h)"
  using assms by (simp_all add: saveAudioLocally_def saveNotificationSound_def ret_def)

text \<open>
  Claim C10, as the code has it. When the playback save returns a path and the
  notification-sound save returns null, \<^verbatim>\<open>handleScheduleAlarm\<close> does not stop with the
  save error. If the screen was unmounted during the saves, it stops there with the
  status \<^verbatim>\<open>saving\<close> and calls nothing more. Otherwise it keeps the saved path and calls
  \<^verbatim>\<open>scheduleAlarm\<close> without a sound file name, its trace is the trace of that call, and
  its final status is \<^verbatim>\<open>scheduling\<close> when the screen was unmounted meanwhile and
  otherwise \<^verbatim>\<open>scheduled\<close> or \<^verbatim>\<open>error\<close> as \<^verbatim>\<open>scheduleAlarm\<close> succeeded or failed. On a
  phone, when \<^verbatim>\<open>scheduleAlarm\<close> succeeded, the registration it made has the platform
  default sound (\<^verbatim>\<open>sound: true\<close>). On web, where the notification-sound save returns
  null on every run, no registration is made and the registered notifications are those
  of before.
\<close>

theorem C10_missing_sound_falls_back:
  assumes "\<not> falsy (audioUrl params)" and "\<not> falsy (routeWakeUpTime params)"
    and "saveAudioLocally dev (the (audioUrl params)) h = (Inr savedPath, h1)"
    and "\<not> falsy savedPath"
    and "saveNotificationSound dev (the (audioUrl params)) h1 = (Inr None, h2)"
  shows "(let (res, h3) = scheduleAlarm dev clk
                 \<lparr>wakeUpTime = the (routeWakeUpTime params), name = userName params,
                  soundFileName = None\<rparr> h2;
              (out, h') = handleScheduleAlarm dev clk params mounted1 mounted2 scr h;
              result = projr res;
              final = projr out
          in \<not> isl out
           \<and> (\<not> mounted1 \<longrightarrow> h' = h2 \<and> schedulingStatus final = Saving)
           \<and> (mounted1 \<longrightarrow>
                h' = h3 \<and> localAudioPath final = savedPath
              \<and> (\<not> mounted2 \<longrightarrow> schedulingStatus final = Scheduling)
              \<and> (mounted2 \<longrightarrow> scheduleResult final = Some result
                   \<and> schedulingStatus final = (if success result then Scheduled else Error)))
           \<and> (mounted1 \<and> OS dev \<noteq> Web \<and> success result \<longrightarrow>
                map_option sound (lastScheduleRequest h') = Some DefaultSound)
           \<and> (OS dev = Web \<longrightarrow> h2 = h \<and> scheduled h' = scheduled h))"
proof -
  let ?p = "\<lparr>wakeUpTime = the (routeWakeUpTime params), name = userName params,
             soundFileName = None\<rparr>"
  obtain res h3 where s: "scheduleAlarm dev clk ?p h2 = (res, h3)"
    by (cases "scheduleAlarm dev clk ?p h2")
  obtain result where r: "res = Inr result"
    using scheduleAlarm_total[of dev clk ?p h2] s by (cases res) auto
  have snd: "OS dev \<noteq> Web \<and> success result \<longrightarrow>
      map_option sound (lastScheduleRequest h3) = Some DefaultSound"
    using scheduleAlarm_success_sound[of dev clk ?p h2] s r by (simp add: falsy_None)
  have web: "h2 = h \<and> scheduled h3 = scheduled h" if "OS dev = Web"
    using saves_web[OF that] assms(3,5) scheduleAlarm_web_registers_nothing[OF that, of clk ?p h2] s
    by simp
  have off: "handleScheduleAlarm dev clk params False mounted2 scr h =
      (Inr (scr\<lparr>schedulingStatus := Saving, errorMessage := None\<rparr>), h2)"
    using assms by (simp add: handleScheduleAlarm_def await_def ret_def Let_def)
  have run: "handleScheduleAlarm dev clk params True mounted2 scr h =
      (Inr (if \<not> mounted2
            then scr\<lparr>schedulingStatus := Saving, errorMessage := None,
                     localAudioPath := savedPath, schedulingStatus := Scheduling\<rparr>
            else if success result
            then (if falsy (error result)
                  then scr\<lparr>schedulingStatus := Saving, errorMessage := None,
                     localAudioPath := savedPath, schedulingStatus := Scheduling,
                     scheduleResult := Some result, schedulingStatus := Scheduled\<rparr>
                  else scr\<lparr>schedulingStatus := Saving, errorMessage := None,
                     localAudioPath := savedPath, schedulingStatus := Scheduling,
                     scheduleResult := Some result, schedulingStatus := Scheduled,
                     errorMessage := error result\<rparr>)
            else scr\<lparr>schedulingStatus := Saving, errorMessage := None,
                     localAudioPath := savedPath, schedulingStatus := Scheduling,
                     scheduleResult := Some result,
                     errorMessage := (if falsy (error result) then Some ''Failed to schedule alarm.''
                                      else error result),
                     schedulingStatus := Error\<rparr>), h3)"
    using assms s r
    by (simp add: handleScheduleAlarm_def await_def ret_def Let_def falsy_None)
  show ?thesis
  proof (cases mounted1)
    case True
    then show ?thesis using snd web by (simp add: s r run)
  next
    case False
    then show ?thesis using web by (simp add: s r off)
  qed
qed

text \<open>On the phone that cannot create the sounds directory, the alarm is scheduled
  with the default sound; when the screen is unmounted during the saves, nothing is
  scheduled. In the browser the registered notifications are those of before.\<close>

theorem C10_missing_sound_falls_back_witness:
  "\<not> falsy (Some ''data:audio/wav;base64,AAAA'') \<and> \<not> falsy (Some ''11:30'')
   \<and> fst (saveAudioLocally noSounds ''data:audio/wav;base64,AAAA'' [])
       = Inr (Some ''file:///data/user/0/app/files/morning-audio/morning-alarm.mp3'')
   \<and> fst (saveNotificationSound noSounds ''data:audio/wav;base64,AAAA''
            (snd (saveAudioLocally noSounds ''data:audio/wav;base64,AAAA'' []))) = Inr None
   \<and> schedulingStatus (projr (fst (handleScheduleAlarm noSounds
         \<lparr>now0 = 1704103200000, now1 = 1704103200000, now2 = 1704103200000\<rparr>
         \<lparr>audioUrl = Some ''data:audio/wav;base64,AAAA'', userName = ''Ann'',
          routeWakeUpTime = Some ''11:30''\<rparr>
         True True
         \<lparr>schedulingStatus = Idle, scheduleResult = None, errorMessage = None,
          localAudioPath = None\<rparr> []))) = Scheduled
   \<and> map_option sound (lastScheduleRequest (snd (handleScheduleAlarm noSounds
         \<lparr>now0 = 1704103200000, now1 = 1704103200000, now2 = 1704103200000\<rparr>
         \<lparr>audioUrl = Some ''data:audio/wav;base64,AAAA'', userName = ''Ann'',
          routeWakeUpTime = Some ''11:30''\<rparr>
         True True
         \<lparr>schedulingStatus = Idle, scheduleResult = None, errorMessage = None,
          localAudioPath = None\<rparr> []))) = Some DefaultSound
   \<and> schedulingStatus (projr (fst (handleScheduleAlarm noSounds
         \<lparr>now0 = 1704103200000, now1 = 1704103200000, now2 = 1704103200000\<rparr>
         \<lparr>audioUrl = Some ''data:audio/wav;base64,AAAA'', userName = ''Ann'',
          routeWakeUpTime = Some ''11:30''\<rparr>
         False True
         \<lparr>schedulingStatus = Idle, scheduleResult = None, errorMessage = None,
          localAudioPath = None\<rparr> []))) = Saving
   \<and> OS browser = Web
   \<and> saveAudioLocally browser ''data:audio/wav;base64,AAAA'' []
       = (Inr (Some ''data:audio/wav;base64,AAAA''), [])
   \<and> saveNotificationSound browser ''data:audio/wav;base64,AAAA'' [] = (Inr None, [])
   \<and> scheduled (snd (handleScheduleAlarm browser
         \<lparr>now0 = 1704103200000, now1 = 1704103200000, now2 = 1704103200000\<rparr>
         \<lparr>audioUrl = Some ''data:audio/wav;base64,AAAA'', userName = ''Ann'',
          routeWakeUpTime = Some ''11:30''\<rparr>
         True True
         \<lparr>schedulingStatus = Idle, scheduleResult = None, errorMessage = None,
          localAudioPath = None\<rparr> [])) = scheduled []"
  using C10_missing_sound_falls_back[where dev = browser
      and params = "\<lparr>audioUrl = Some ''data:audio/wav;base64,AAAA'', userName = ''Ann'',
          routeWakeUpTime = Some ''11:30''\<rparr>"
      and h = "[]"
      and savedPath = "Some ''data:audio/wav;base64,AAAA''"
      and ?h1.0 = "[]"
      and ?h2.0 = "[]"
      and clk = "\<lparr>now0 = 1704103200000, now1 = 1704103200000, now2 = 1704103200000\<rparr>"
      and ?mounted1.0 = True
      and ?mounted2.0 = True
      and scr = "\<lparr>schedulingStatus = Idle, scheduleResult = None, errorMessage = None,
          localAudioPath = None\<rparr>"]
    C10_missing_sound_falls_back[where dev = noSounds
      and params = "\<lparr>audioUrl = Some ''data:audio/wav;base64,AAAA'', userName = ''Ann'',
          routeWakeUpTime = Some ''11:30''\<rparr>"
      and h = "[]"
      and savedPath = "Some ''file:///data/user/0/app/files/morning-audio/morning-alarm.mp3''"
      and ?h1.0 = "snd (saveAudioLocally noSounds ''data:audio/wav;base64,AAAA'' [])"
      and ?h2.0 = "snd (saveNotificationSound noSounds ''data:audio/wav;base64,AAAA''
            (snd (saveAudioLocally noSounds ''data:audio/wav;base64,AAAA'' [])))"
      and clk = "\<lparr>now0 = 1704103200000, now1 = 1704103200000, now2 = 1704103200000\<rparr>"
      and ?mounted1.0 = True
      and ?mounted2.0 = True
      and scr = "\<lparr>schedulingStatus = Idle, scheduleResult = None, errorMessage = None,
          localAudioPath = None\<rparr>"]
    C10_missing_sound_falls_back[where dev = noSounds
      and params = "\<lparr>audioUrl = Some ''data:audio/wav;base64,AAAA'', userName = ''Ann'',
          routeWakeUpTime = Some ''11:30''\<rparr>"
      and h = "[]"
      and savedPath = "Some ''file:///data/user/0/app/files/morning-audio/morning-alarm.mp3''"
      and ?h1.0 = "snd (saveAudioLocally noSounds ''data:audio/wav;base64,AAAA'' [])"
      and ?h2.0 = "snd (saveNotificationSound noSounds ''data:audio/wav;base64,AAAA''
            (snd (saveAudioLocally noSounds ''data:audio/wav;base64,AAAA'' [])))"
      and clk = "\<lparr>now0 = 1704103200000, now1 = 1704103200000, now2 = 1704103200000\<rparr>"
      and ?mounted1.0 = False
      and ?mounted2.0 = True
      and scr = "\<lparr>schedulingStatus = Idle, scheduleResult = None, errorMessage = None,
          localAudioPath = None\<rparr>"]
  by code_simp

text \<open>
  In the browser the playback save returns the source reference and the
  notification-sound save returns null; the handler ends with the status \<^verbatim>\<open>scheduled\<close>,
  and no notification has been registered, so there is no sound field. On the phone that
  cannot create the sounds directory, with the screen unmounted during the saves, the
  handler ends with the status \<^verbatim>\<open>saving\<close> and no notification has been registered.
\<close>

theorem C10_nothing_registered:
  "saveAudioLocally browser ''data:audio/wav;base64,AAAA'' []
     = (Inr (Some ''data:audio/wav;base64,AAAA''), [])
   \<and> saveNotificationSound browser ''data:audio/wav;base64,AAAA'' [] = (Inr None, [])
   \<and> schedulingStatus (projr (fst (handleScheduleAlarm browser
         \<lparr>now0 = 1704103200000, now1 = 1704103200000, now2 = 1704103200000\<rparr>
         \<lparr>audioUrl = Some ''data:audio/wav;base64,AAAA'', userName = ''Ann'',
          routeWakeUpTime = Some ''11:30''\<rparr>
         True True
         \<lparr>schedulingStatus = Idle, scheduleResult = None, errorMessage = None,
          localAudioPath = None\<rparr> []))) = Scheduled
   \<and> snd (handleScheduleAlarm browser
         \<lparr>now0 = 1704103200000, now1 = 1704103200000, now2 = 1704103200000\<rparr>
         \<lparr>audioUrl = Some ''data:audio/wav;base64,AAAA'', userName = ''Ann'',
          routeWakeUpTime = Some ''11:30''\<rparr>
         True True
         \<lparr>schedulingStatus = Idle, scheduleResult = None, errorMessage = None,
          localAudioPath = None\<rparr> [])
       = [(NotificationRequestPermission, PermissionStatus ''granted'')]
   \<and> scheduled (snd (handleScheduleAlarm browser
         \<lparr>now0 = 1704103200000, now1 = 1704103200000, now2 = 1704103200000\<rparr>
         \<lparr>audioUrl = Some ''data:audio/wav;base64,AAAA'', userName = ''Ann'',
          routeWakeUpTime = Some ''11:30''\<rparr>
         True True
         \<lparr>schedulingStatus = Idle, scheduleResult = None, errorMessage = None,
          localAudioPath = None\<rparr> [])) = []
   \<and> fst (saveNotificationSound noSounds ''data:audio/wav;base64,AAAA''
            (snd (saveAudioLocally noSounds ''data:audio/wav;base64,AAAA'' []))) = Inr None
   \<and> schedulingStatus (projr (fst (handleScheduleAlarm noSounds
         \<lparr>now0 = 1704103200000, now1 = 1704103200000, now2 = 1704103200000\<rparr>
         \<lparr>audioUrl = Some ''data:audio/wav;base64,AAAA'', userName = ''Ann'',
          routeWakeUpTime = Some ''11:30''\<rparr>
         False True
         \<lparr>schedulingStatus = Idle, scheduleResult = None, errorMessage = None,
          localAudioPath = None\<rparr> []))) = Saving
   \<and> scheduled (snd (handleScheduleAlarm noSounds
         \<lparr>now0 = 1704103200000, now1 = 1704103200000, now2 = 1704103200000\<rparr>
         \<lparr>audioUrl = Some ''data:audio/wav;base64,AAAA'', userName = ''Ann'',
          routeWakeUpTime = Some ''11:30''\<rparr>
         False True
         \<lparr>schedulingStatus = Idle, scheduleResult = None, errorMessage = None,
          localAudioPath = None\<rparr> [])) = []"
  by code_simp

section \<open>Verification: the saves of the media cache\<close>

lemma await_assoc: "await (await m f) g = await m (\<lambda>x. await (f x) g)"
  by (rule ext) (simp add: await_def split: prod.splits sum.splits)

lemma saveAudioLocally_prepared:
  "OS dev \<noteq> Web \<Longrightarrow>
   saveAudioLocally dev url =
     tryCatch
       (await (prepareTarget dev (getAudioDirectoryPath dev) (getAudioFilePath dev)) (\<lambda>_.
          if isDataUri url then
            (if falsy (extractBase64FromDataUri url)
             then throw (JsError ''Invalid data URI format'')
             else await (writeAsStringAsync dev (getAudioFilePath dev)
                           (the (extractBase64FromDataUri url)) Base64)
                    (\<lambda>_. ret (Some (getAudioFilePath dev))))
          else
            await (downloadAsync dev url (getAudioFilePath dev)) (\<lambda>(status, uri).
              if status = 200 then ret (Some uri) else ret None)))
       (\<lambda>error. ret None)"
  by (simp add: saveAudioLocally_def ensureDirectoryExists_def prepareTarget_def Let_def
      await_assoc)

lemma saveNotificationSound_prepared:
  "OS dev \<noteq> Web \<Longrightarrow>
   saveNotificationSound dev url =
     tryCatch
       (await (prepareTarget dev (getLibrarySoundsPath dev) (getNotificationSoundPath dev)) (\<lambda>_.
        await
          (if isDataUri url then
             (if falsy (extractBase64FromDataUri url)
              then throw (JsError ''Invalid data URI format'')
              else writeAsStringAsync dev (getNotificationSoundPath dev)
                     (the (extractBase64FromDataUri url)) Base64)
           else
             await (downloadAsync dev url (getNotificationSoundPath dev)) (\<lambda>(status, uri).
               if status \<noteq> 200 then throw (JsError ''Failed to download audio'')
               else ret ()))
          (\<lambda>_.
        await (getInfoAsync dev (getNotificationSoundPath dev)) (\<lambda>savedFile.
          if \<not> savedFile then throw (JsError ''Sound file was not saved'')
          else ret (Some NOTIFICATION_SOUND_FILENAME)))))
       (\<lambda>error. ret None)"
  by (simp add: saveNotificationSound_def ensureSoundsDirectoryExists_def prepareTarget_def
      Let_def await_assoc)


lemma getInfoAsync_trace:
  "snd (getInfoAsync dev p h) = h @ [(GetInfoAsync p, respond dev h (GetInfoAsync p))]"
  by (simp add: getInfoAsync_def io_defs split: reply.splits)

lemma makeDirectoryAsync_trace:
  "snd (makeDirectoryAsync dev p h) = h @ [(MakeDirectoryAsync p, respond dev h (MakeDirectoryAsync p))]"
  by (simp add: makeDirectoryAsync_def io_defs split: reply.splits)

lemma deleteAsync_trace:
  "snd (deleteAsync dev p h) = h @ [(DeleteAsync p, respond dev h (DeleteAsync p))]"
  by (simp add: deleteAsync_def io_defs split: reply.splits)

lemma await_preserves:
  assumes "\<And>h. f (snd (m h)) = f h" and "\<And>x h. f (snd (k x h)) = f h"
  shows "f (snd (await m k h)) = f h"
proof (cases "m h")
  case (Pair r h')
  then have "f h' = f h" using assms(1)[of h] by simp
  then show ?thesis using Pair assms(2) by (cases r) (simp_all add: await_def)
qed

lemma transfers_snoc:
  "transfers (h @ [(c, r)]) = (if isTransfer c then transfers h @ [c] else transfers h)"
  by (simp add: transfers_def)


lemma prepareTarget_transfers: "transfers (snd (prepareTarget dev d p h)) = transfers h"
  unfolding prepareTarget_def
  by (intro await_preserves)
     (simp_all add: getInfoAsync_trace makeDirectoryAsync_trace deleteAsync_trace transfers_snoc
        isTransfer_def ret_def)



lemma saveAudioLocally_unprepared:
  assumes "OS dev \<noteq> Web"
    and "prepareTarget dev (getAudioDirectoryPath dev) (getAudioFilePath dev) h = (Inl e, hp)"
  shows "saveAudioLocally dev url h = (Inr None, hp)"
  using assms(2) by (simp add: saveAudioLocally_prepared[OF assms(1)] tryCatch_def await_def ret_def)

lemma saveNotificationSound_unprepared:
  assumes "OS dev \<noteq> Web"
    and "prepareTarget dev (getLibrarySoundsPath dev) (getNotificationSoundPath dev) h = (Inl e, hp)"
  shows "saveNotificationSound dev url h = (Inr None, hp)"
  using assms(2)
  by (simp add: saveNotificationSound_prepared[OF assms(1)] tryCatch_def await_def ret_def)

lemma saveAudioLocally_remote:
  assumes "OS dev \<noteq> Web" and "\<not> isDataUri url"
    and "prepareTarget dev (getAudioDirectoryPath dev) (getAudioFilePath dev) h = (Inr (), hp)"
  shows "saveAudioLocally dev url h =
     (Inr (downloadedUri (respond dev hp (DownloadAsync url (getAudioFilePath dev)))),
      hp @ [(DownloadAsync url (getAudioFilePath dev),
             respond dev hp (DownloadAsync url (getAudioFilePath dev)))])"
  using assms(2,3)
  by (simp add: saveAudioLocally_prepared[OF assms(1)] tryCatch_def await_def ret_def throw_def
      perform_run downloadAsync_def downloadedUri_def split: reply.splits)

lemma saveNotificationSound_remote:
  assumes "OS dev \<noteq> Web" and "\<not> isDataUri url"
    and "prepareTarget dev (getLibrarySoundsPath dev) (getNotificationSoundPath dev) h = (Inr (), hp)"
  shows "saveNotificationSound dev url h =
     (let t = respond dev hp (DownloadAsync url (getNotificationSoundPath dev));
          h1 = hp @ [(DownloadAsync url (getNotificationSoundPath dev), t)]
      in if \<not> transferSucceeded t then (Inr None, h1)
         else let e = respond dev h1 (GetInfoAsync (getNotificationSoundPath dev))
              in (Inr (if e = Exists True then Some NOTIFICATION_SOUND_FILENAME else None),
                  h1 @ [(GetInfoAsync (getNotificationSoundPath dev), e)]))"
proof -
  let ?p = "getNotificationSoundPath dev"
  let ?t = "respond dev hp (DownloadAsync url ?p)"
  let ?h1 = "hp @ [(DownloadAsync url ?p, ?t)]"
  let ?e = "respond dev ?h1 (GetInfoAsync ?p)"
  have d: "downloadAsync dev url ?p hp =
      ((case ?t of DownloadResult status uri \<Rightarrow> Inr (status, uri)
        | _ \<Rightarrow> Inl (Rejection (DownloadAsync url ?p))), ?h1)"
    by (simp add: downloadAsync_def io_defs split: reply.splits)
  have g: "getInfoAsync dev ?p ?h1 =
      ((case ?e of Exists b \<Rightarrow> Inr b | _ \<Rightarrow> Inl (Rejection (GetInfoAsync ?p))),
       ?h1 @ [(GetInfoAsync ?p, ?e)])"
    by (simp add: getInfoAsync_def io_defs split: reply.splits)
  have run: "saveNotificationSound dev url h =
      tryCatch (await (await (downloadAsync dev url ?p) (\<lambda>(status, uri).
               if status \<noteq> 200 then throw (JsError ''Failed to download audio'')
               else ret ()))
            (\<lambda>_. await (getInfoAsync dev ?p) (\<lambda>savedFile.
          if \<not> savedFile then throw (JsError ''Sound file was not saved'')
          else ret (Some NOTIFICATION_SOUND_FILENAME)))) (\<lambda>error. ret None) hp"
    using assms(2,3)
    by (simp add: saveNotificationSound_prepared[OF assms(1)] tryCatch_def await_def)
  show ?thesis
  proof (cases "transferSucceeded ?t")
    case False
    then show ?thesis
      unfolding run
      by (cases ?t) (simp_all add: tryCatch_def await_def d ret_def throw_def
          transferSucceeded_def Let_def)
  next
    case True
    then obtain uri where t: "?t = DownloadResult 200 uri"
      by (cases ?t) (simp_all add: transferSucceeded_def)
    have g': "getInfoAsync dev ?p (hp @ [(DownloadAsync url ?p, DownloadResult 200 uri)]) =
      ((case respond dev (hp @ [(DownloadAsync url ?p, DownloadResult 200 uri)]) (GetInfoAsync ?p)
          of Exists b \<Rightarrow> Inr b | _ \<Rightarrow> Inl (Rejection (GetInfoAsync ?p))),
       hp @ [(DownloadAsync url ?p, DownloadResult 200 uri)] @ [(GetInfoAsync ?p,
          respond dev (hp @ [(DownloadAsync url ?p, DownloadResult 200 uri)]) (GetInfoAsync ?p))])"
      using g by (simp add: t)
    show ?thesis
      unfolding run using True
      by (cases "respond dev (hp @ [(DownloadAsync url ?p, DownloadResult 200 uri)])
                   (GetInfoAsync ?p)")
         (simp_all add: tryCatch_def await_def d t g' ret_def throw_def Let_def)
  qed
qed

lemma save_invalid_inline:
  assumes "OS dev \<noteq> Web" and "isDataUri url" and "extractBase64FromDataUri url = None"
  shows "saveAudioLocally dev url h =
           (Inr None, snd (prepareTarget dev (getAudioDirectoryPath dev) (getAudioFilePath dev) h))"
    and "saveNotificationSound dev url h =
           (Inr None, snd (prepareTarget dev (getLibrarySoundsPath dev)
                              (getNotificationSoundPath dev) h))"
proof -
  show "saveAudioLocally dev url h =
           (Inr None, snd (prepareTarget dev (getAudioDirectoryPath dev) (getAudioFilePath dev) h))"
    using assms(2,3)
    by (cases "prepareTarget dev (getAudioDirectoryPath dev) (getAudioFilePath dev) h")
       (simp add: saveAudioLocally_prepared[OF assms(1)] tryCatch_def await_def ret_def throw_def
          falsy_def split: sum.splits)
  show "saveNotificationSound dev url h =
           (Inr None, snd (prepareTarget dev (getLibrarySoundsPath dev)
                              (getNotificationSoundPath dev) h))"
    using assms(2,3)
    by (cases "prepareTarget dev (getLibrarySoundsPath dev) (getNotificationSoundPath dev) h")
       (simp add: saveNotificationSound_prepared[OF assms(1)] tryCatch_def await_def ret_def
          throw_def falsy_def split: sum.splits)
qed

text \<open>
  Claim C6, as the code has it. On a device with a local file system, a source reference
  that does not start with \<^verbatim>\<open>data:\<close> is treated as a URL: once the preparatory steps
  have succeeded, the save makes one transfer of the source reference to the fixed path
  of the kind. The playback save then returns a path exactly when the transfer reports
  success (status 200); the notification-sound save returns the file name exactly when
  the transfer reports success and the file is then reported to exist. When a
  preparatory step is rejected, the save returns null at that point. A source reference
  that starts with \<^verbatim>\<open>data:\<close> and does not match the inline grammar is not treated as a
  URL: the save returns null and no transfer is made.
\<close>

theorem C6_remote_reference:
  "(OS dev \<noteq> Web \<and> \<not> isDataUri sourceRef \<longrightarrow>
      saveAudioLocally dev sourceRef h =
        (case prepareTarget dev (getAudioDirectoryPath dev) (getAudioFilePath dev) h of
           (Inl e, hp) \<Rightarrow> (Inr None, hp)
         | (Inr u, hp) \<Rightarrow>
             (let t = respond dev hp (DownloadAsync sourceRef (getAudioFilePath dev))
              in (Inr (downloadedUri t),
                  hp @ [(DownloadAsync sourceRef (getAudioFilePath dev), t)])))
    \<and> saveNotificationSound dev sourceRef h =
        (case prepareTarget dev (getLibrarySoundsPath dev) (getNotificationSoundPath dev) h of
           (Inl e, hq) \<Rightarrow> (Inr None, hq)
         | (Inr u, hq) \<Rightarrow>
             (let t = respond dev hq (DownloadAsync sourceRef (getNotificationSoundPath dev));
                  h1 = hq @ [(DownloadAsync sourceRef (getNotificationSoundPath dev), t)]
              in if \<not> transferSucceeded t then (Inr None, h1)
                 else let e = respond dev h1 (GetInfoAsync (getNotificationSoundPath dev))
                      in (Inr (if e = Exists True then Some NOTIFICATION_SOUND_FILENAME else None),
                          h1 @ [(GetInfoAsync (getNotificationSoundPath dev), e)]))))
   \<and> (downloadedUri t \<noteq> None) = transferSucceeded t
   \<and> (OS dev \<noteq> Web \<and> isDataUri inlineRef \<and> extractBase64FromDataUri inlineRef = None \<longrightarrow>
        fst (saveAudioLocally dev inlineRef h) = Inr None
      \<and> transfers (snd (saveAudioLocally dev inlineRef h)) = transfers h
      \<and> fst (saveNotificationSound dev inlineRef h) = Inr None
      \<and> transfers (snd (saveNotificationSound dev inlineRef h)) = transfers h)"
proof -
  have d: "downloadedUri r \<noteq> None \<longleftrightarrow> transferSucceeded r" for r
    by (simp add: downloadedUri_def transferSucceeded_def split: reply.splits)
  have a: "saveAudioLocally dev sourceRef h =
        (case prepareTarget dev (getAudioDirectoryPath dev) (getAudioFilePath dev) h of
           (Inl e, hp) \<Rightarrow> (Inr None, hp)
         | (Inr u, hp) \<Rightarrow>
             (let t = respond dev hp (DownloadAsync sourceRef (getAudioFilePath dev))
              in (Inr (downloadedUri t),
                  hp @ [(DownloadAsync sourceRef (getAudioFilePath dev), t)])))"
    if "OS dev \<noteq> Web" "\<not> isDataUri sourceRef"
  proof (cases "prepareTarget dev (getAudioDirectoryPath dev) (getAudioFilePath dev) h")
    case (Pair r hp)
    show ?thesis
    proof (cases r)
      case (Inl e)
      then show ?thesis using Pair saveAudioLocally_unprepared[OF that(1), of h e hp] by simp
    next
      case (Inr u)
      then show ?thesis using Pair saveAudioLocally_remote[OF that, of h hp]
        by (simp add: Let_def)
    qed
  qed
  have b: "saveNotificationSound dev sourceRef h =
        (case prepareTarget dev (getLibrarySoundsPath dev) (getNotificationSoundPath dev) h of
           (Inl e, hq) \<Rightarrow> (Inr None, hq)
         | (Inr u, hq) \<Rightarrow>
             (let t = respond dev hq (DownloadAsync sourceRef (getNotificationSoundPath dev));
                  h1 = hq @ [(DownloadAsync sourceRef (getNotificationSoundPath dev), t)]
              in if \<not> transferSucceeded t then (Inr None, h1)
                 else let e = respond dev h1 (GetInfoAsync (getNotificationSoundPath dev))
                      in (Inr (if e = Exists True then Some NOTIFICATION_SOUND_FILENAME else None),
                          h1 @ [(GetInfoAsync (getNotificationSoundPath dev), e)])))"
    if "OS dev \<noteq> Web" "\<not> isDataUri sourceRef"
  proof (cases "prepareTarget dev (getLibrarySoundsPath dev) (getNotificationSoundPath dev) h")
    case (Pair r hq)
    show ?thesis
    proof (cases r)
      case (Inl e)
      then show ?thesis using Pair saveNotificationSound_unprepared[OF that(1), of h e hq] by simp
    next
      case (Inr u)
      then show ?thesis using Pair saveNotificationSound_remote[OF that, of h hq] by simp
    qed
  qed
  show ?thesis
    using a b d[of t]
    by (simp add: save_invalid_inline prepareTarget_transfers del: Let_def)
qed

text \<open>On the working phone a URL is transferred by both saves, and an inline reference
  with an empty payload is not.\<close>

theorem C6_remote_reference_witness:
  "OS phone \<noteq> Web \<and> \<not> isDataUri ''https://example.org/a.mp3''
   \<and> saveAudioLocally phone ''https://example.org/a.mp3'' [] =
       (Inr (Some ''file:///data/user/0/app/files/morning-audio/morning-alarm.mp3''),
        [(GetInfoAsync ''file:///data/user/0/app/files/morning-audio/'', Exists False),
         (MakeDirectoryAsync ''file:///data/user/0/app/files/morning-audio/'', Resolved),
         (GetInfoAsync ''file:///data/user/0/app/files/morning-audio/morning-alarm.mp3'', Exists False),
         (DownloadAsync ''https://example.org/a.mp3''
            ''file:///data/user/0/app/files/morning-audio/morning-alarm.mp3'',
          DownloadResult 200 ''file:///data/user/0/app/files/morning-audio/morning-alarm.mp3'')])
   \<and> fst (saveNotificationSound phone ''https://example.org/a.mp3'' [])
       = Inr (Some ''morning-alarm-notification.wav'')
   \<and> transferSucceeded (DownloadResult 200 ''f'')
   \<and> isDataUri ''data:audio/wav;base64,''
   \<and> extractBase64FromDataUri ''data:audio/wav;base64,'' = None
   \<and> fst (saveAudioLocally phone ''data:audio/wav;base64,'' []) = Inr None
   \<and> transfers (snd (saveAudioLocally phone ''data:audio/wav;base64,'' [])) = []"
  using C6_remote_reference[of phone "''https://example.org/a.mp3''" "[]"
      "DownloadResult 200 ''f''" "''data:audio/wav;base64,''"]
  by code_simp

text \<open>\<^verbatim>\<open>data:oops\<close> does not match the inline grammar; on the working phone, where a
  transfer would report success, both saves return null without any transfer.\<close>

theorem C6_invalid_inline_not_transferred:
  "extractBase64FromDataUri ''data:oops'' = None
   \<and> fst (saveAudioLocally phone ''data:oops'' []) = Inr None
   \<and> transfers (snd (saveAudioLocally phone ''data:oops'' [])) = []
   \<and> transferSucceeded (respond phone (snd (saveAudioLocally phone ''data:oops'' []))
        (DownloadAsync ''data:oops'' (getAudioFilePath phone)))
   \<and> fst (saveNotificationSound phone ''data:oops'' []) = Inr None
   \<and> transfers (snd (saveNotificationSound phone ''data:oops'' [])) = []"
  by code_simp


lemma extract_SomeD:
  "extractBase64FromDataUri url = Some p \<Longrightarrow> isDataUri url \<and> \<not> falsy (Some p)"
  by (auto simp: extractBase64FromDataUri_def isDataUri_def falsy_def Let_def split: if_splits)

lemma writeAsStringAsync_run:
  "writeAsStringAsync dev path contents enc h =
     ((if respond dev h (WriteAsStringAsync path contents enc) = Resolved then Inr ()
       else Inl (Rejection (WriteAsStringAsync path contents enc))),
      h @ [(WriteAsStringAsync path contents enc,
            respond dev h (WriteAsStringAsync path contents enc))])"
  by (simp add: writeAsStringAsync_def io_defs split: reply.splits)

lemma getInfoAsync_run:
  "getInfoAsync dev path h =
     ((case respond dev h (GetInfoAsync path) of Exists b \<Rightarrow> Inr b
       | _ \<Rightarrow> Inl (Rejection (GetInfoAsync path))),
      h @ [(GetInfoAsync path, respond dev h (GetInfoAsync path))])"
  by (simp add: getInfoAsync_def io_defs split: reply.splits)

lemma saveAudioLocally_inline:
  assumes "OS dev \<noteq> Web" and "extractBase64FromDataUri url = Some p"
    and "prepareTarget dev (getAudioDirectoryPath dev) (getAudioFilePath dev) h = (Inr (), hp)"
  shows "saveAudioLocally dev url h =
     (Inr (if respond dev hp (WriteAsStringAsync (getAudioFilePath dev) p Base64) = Resolved
           then Some (getAudioFilePath dev) else None),
      hp @ [(WriteAsStringAsync (getAudioFilePath dev) p Base64,
             respond dev hp (WriteAsStringAsync (getAudioFilePath dev) p Base64))])"
  using assms(2,3) extract_SomeD[OF assms(2)]
  by (simp add: saveAudioLocally_prepared[OF assms(1)] tryCatch_def await_def ret_def throw_def
      writeAsStringAsync_run)

lemma saveNotificationSound_inline:
  assumes "OS dev \<noteq> Web" and "extractBase64FromDataUri url = Some p"
    and "prepareTarget dev (getLibrarySoundsPath dev) (getNotificationSoundPath dev) h = (Inr (), hp)"
  shows "saveNotificationSound dev url h =
     (let r = respond dev hp (WriteAsStringAsync (getNotificationSoundPath dev) p Base64);
          h1 = hp @ [(WriteAsStringAsync (getNotificationSoundPath dev) p Base64, r)]
      in if r \<noteq> Resolved then (Inr None, h1)
         else let e = respond dev h1 (GetInfoAsync (getNotificationSoundPath dev))
              in (Inr (if e = Exists True then Some NOTIFICATION_SOUND_FILENAME else None),
                  h1 @ [(GetInfoAsync (getNotificationSoundPath dev), e)]))"
proof -
  let ?p = "getNotificationSoundPath dev"
  let ?r = "respond dev hp (WriteAsStringAsync ?p p Base64)"
  have run: "saveNotificationSound dev url h =
      tryCatch (await (writeAsStringAsync dev ?p p Base64)
            (\<lambda>_. await (getInfoAsync dev ?p) (\<lambda>savedFile.
          if \<not> savedFile then throw (JsError ''Sound file was not saved'')
          else ret (Some NOTIFICATION_SOUND_FILENAME)))) (\<lambda>error. ret None) hp"
    using assms(2,3) extract_SomeD[OF assms(2)]
    by (simp add: saveNotificationSound_prepared[OF assms(1)] tryCatch_def await_def)
  show ?thesis
  proof (cases "?r = Resolved")
    case False
    then show ?thesis
      unfolding run
      by (simp add: tryCatch_def await_def writeAsStringAsync_run ret_def Let_def)
  next
    case True
    show ?thesis
      unfolding run using True
      by (cases "respond dev (hp @ [(WriteAsStringAsync ?p p Base64, Resolved)]) (GetInfoAsync ?p)")
         (simp_all add: tryCatch_def await_def writeAsStringAsync_run getInfoAsync_run ret_def
            throw_def Let_def)
  qed
qed











lemma saveNotificationSound_web:
  "OS dev = Web \<Longrightarrow> saveNotificationSound dev url h = (Inr None, h)"
  by (simp add: saveNotificationSound_def ret_def)

lemma saveNotificationSound_checked:
  assumes "fst (saveNotificationSound dev url h) \<noteq> Inr None"
  shows "last (snd (saveNotificationSound dev url h))
     = (GetInfoAsync (getNotificationSoundPath dev), Exists True)"
proof (cases "OS dev = Web")
  case True
  then show ?thesis using assms by (simp add: saveNotificationSound_web)
next
  case os: False
  show ?thesis
  proof (cases "prepareTarget dev (getLibrarySoundsPath dev) (getNotificationSoundPath dev) h")
    case (Pair r hp)
    show ?thesis
    proof (cases r)
      case (Inl e)
      then show ?thesis
        using Pair saveNotificationSound_unprepared[OF os, of h e hp url] assms by simp
    next
      case (Inr u)
      with Pair have prep: "prepareTarget dev (getLibrarySoundsPath dev)
          (getNotificationSoundPath dev) h = (Inr (), hp)" by simp
      show ?thesis
      proof (cases "isDataUri url")
        case False
        then show ?thesis
          using saveNotificationSound_remote[OF os False prep] assms
          by (simp add: Let_def split: if_splits)
      next
        case True
        show ?thesis
        proof (cases "extractBase64FromDataUri url")
          case None
          then show ?thesis using save_invalid_inline(2)[OF os True None, of h] assms by simp
        next
          case (Some p)
          then show ?thesis
            using saveNotificationSound_inline[OF os Some prep] assms
            by (simp add: Let_def split: if_splits)
        qed
      qed
    qed
  qed
qed

text \<open>
  Claim C7. The notification-sound save returns non-null only after an existence query
  of its fixed path, made as its last call, has answered that the file exists. The
  playback save has no such query: for an inline source reference, once the
  preparatory steps and the write have been accepted, it returns the fixed path with the
  write as its last call.
\<close>

theorem C7_existence_check:
  "(fst (saveNotificationSound dev sourceRef h) \<noteq> Inr None \<longrightarrow>
      last (snd (saveNotificationSound dev sourceRef h))
        = (GetInfoAsync (getNotificationSoundPath dev), Exists True))
   \<and> (OS dev \<noteq> Web \<and> extractBase64FromDataUri sourceRef = Some payload
       \<and> prepareTarget dev (getAudioDirectoryPath dev) (getAudioFilePath dev) h = (Inr (), hp)
       \<and> respond dev hp (WriteAsStringAsync (getAudioFilePath dev) payload Base64) = Resolved \<longrightarrow>
      saveAudioLocally dev sourceRef h =
        (Inr (Some (getAudioFilePath dev)),
         hp @ [(WriteAsStringAsync (getAudioFilePath dev) payload Base64, Resolved)]))"
  using saveNotificationSound_checked[of dev sourceRef h]
    saveAudioLocally_inline[of dev sourceRef payload h hp]
  by simp

text \<open>On the phone whose storage keeps nothing, the playback save returns its path
  while the file is absent; the notification-sound save returns null there.\<close>

theorem C7_existence_check_witness:
  "fst (saveNotificationSound phone ''data:audio/wav;base64,AAAA'' []) \<noteq> Inr None
   \<and> last (snd (saveNotificationSound phone ''data:audio/wav;base64,AAAA'' []))
       = (GetInfoAsync ''file:///data/user/0/app/files/sounds/morning-alarm-notification.wav'',
          Exists True)
   \<and> OS lossy \<noteq> Web
   \<and> extractBase64FromDataUri ''data:audio/wav;base64,AAAA'' = Some ''AAAA''
   \<and> saveAudioLocally lossy ''data:audio/wav;base64,AAAA'' [] =
       (Inr (Some ''file:///data/user/0/app/files/morning-audio/morning-alarm.mp3''),
        [(GetInfoAsync ''file:///data/user/0/app/files/morning-audio/'', Exists False),
         (MakeDirectoryAsync ''file:///data/user/0/app/files/morning-audio/'', Resolved),
         (GetInfoAsync ''file:///data/user/0/app/files/morning-audio/morning-alarm.mp3'',
          Exists False),
         (WriteAsStringAsync ''file:///data/user/0/app/files/morning-audio/morning-alarm.mp3''
            ''AAAA'' Base64, Resolved)])
   \<and> respond lossy (snd (saveAudioLocally lossy ''data:audio/wav;base64,AAAA'' []))
         (GetInfoAsync ''file:///data/user/0/app/files/morning-audio/morning-alarm.mp3'')
       = Exists False
   \<and> fst (saveNotificationSound lossy ''data:audio/wav;base64,AAAA'' []) = Inr None"
  using C7_existence_check[where dev = phone and sourceRef = "''data:audio/wav;base64,AAAA''"
      and h = "[]" and payload = "''AAAA''"
      and hp = "snd (prepareTarget phone (getAudioDirectoryPath phone) (getAudioFilePath phone) [])"]
    C7_existence_check[where dev = lossy and sourceRef = "''data:audio/wav;base64,AAAA''"
      and h = "[]" and payload = "''AAAA''"
      and hp = "snd (prepareTarget lossy (getAudioDirectoryPath lossy) (getAudioFilePath lossy) [])"]
  by code_simp

section \<open>Verification: the media cache never raises\<close>

lemma tryCatch_handled: "\<not> isl (fst (tryCatch m (\<lambda>e. ret v) h))"
  by (simp add: tryCatch_def ret_def split: prod.splits sum.splits)

lemma ret_total: "\<not> isl (fst (ret v h))"
  by (simp add: ret_def)

lemma cache_total:
  "\<not> isl (fst (saveAudioLocally dev sourceRef h))"
  "\<not> isl (fst (saveNotificationSound dev sourceRef h))"
  "\<not> isl (fst (getLocalAudioPath dev h))"
  "\<not> isl (fst (deleteLocalAudio dev h))"
  "\<not> isl (fst (deleteNotificationSound dev h))"
  by (simp_all add: saveAudioLocally_def saveNotificationSound_def getLocalAudioPath_def
      deleteLocalAudio_def deleteNotificationSound_def tryCatch_handled ret_total)

lemma orderly_result:
  assumes "orderly (\<lambda>x. x \<noteq> None) m" and "\<not> isl (fst (m h))"
  shows "list_all succeeded (butlast (calls m h))
       \<and> (fst (m h) \<noteq> Inr None \<longrightarrow> list_all succeeded (calls m h))"
proof -
  have a: "list_all succeeded (butlast (calls m h))"
    "\<And>x. fst (m h) = Inr x \<Longrightarrow> x \<noteq> None \<Longrightarrow> list_all succeeded (calls m h)"
    using assms(1) by (auto simp: orderly_def)
  have "list_all succeeded (calls m h)" if "fst (m h) \<noteq> Inr None"
  proof (cases "fst (m h)")
    case (Inl e)
    then show ?thesis using assms(2) by simp
  next
    case (Inr x)
    then show ?thesis using a(2)[of x] that by auto
  qed
  then show ?thesis using a(1) by simp
qed

lemma orderly_unit:
  assumes "orderly (\<lambda>x. False) m" and "\<not> isl (fst (m h))"
  shows "fst (m h) = Inr () \<and> list_all succeeded (butlast (calls m h))"
proof -
  have "fst (m h) = Inr ()" using assms(2) by (cases "fst (m h)") auto
  then show ?thesis using assms(1) by (auto simp: orderly_def)
qed

text \<open>
  Claim C4. On every device, whatever its primitives reply (rejections included), from
  every trace and for every source reference, the operations of the media cache return
  a value and never an exception: \<^verbatim>\<open>save\<close> and \<^verbatim>\<open>remove\<close> of both asset kinds and
  \<^verbatim>\<open>load\<close> of the playback audio. A call that has not succeeded (a rejected call, or a
  transfer with a status other than 200) is the last call of the operation, and the
  result of a \<^verbatim>\<open>save\<close> or \<^verbatim>\<open>load\<close> is then null: a non-null result is returned only
  after calls that have all succeeded. The failures that the code itself raises give
  null as well: an inline source reference that does not match the grammar, and a
  notification sound that is not reported to exist after the write step. A \<^verbatim>\<open>remove\<close>
  returns normally in every case. The code has no \<^verbatim>\<open>load\<close> of the notification sound;
  its only read accessor, \<^verbatim>\<open>getNotificationSoundName\<close>, is the constant file name and
  makes no call.
\<close>

theorem C4_never_raise:
  "\<not> isl (fst (saveAudioLocally dev sourceRef h))
   \<and> list_all succeeded (butlast (calls (saveAudioLocally dev sourceRef) h))
   \<and> (fst (saveAudioLocally dev sourceRef h) \<noteq> Inr None \<longrightarrow>
        list_all succeeded (calls (saveAudioLocally dev sourceRef) h))
   \<and> \<not> isl (fst (saveNotificationSound dev sourceRef h))
   \<and> list_all succeeded (butlast (calls (saveNotificationSound dev sourceRef) h))
   \<and> (fst (saveNotificationSound dev sourceRef h) \<noteq> Inr None \<longrightarrow>
        list_all succeeded (calls (saveNotificationSound dev sourceRef) h)
      \<and> snd (last (snd (saveNotificationSound dev sourceRef h))) = Exists True)
   \<and> (OS dev \<noteq> Web \<and> isDataUri sourceRef \<and> extractBase64FromDataUri sourceRef = None \<longrightarrow>
        fst (saveAudioLocally dev sourceRef h) = Inr None
      \<and> fst (saveNotificationSound dev sourceRef h) = Inr None)
   \<and> \<not> isl (fst (getLocalAudioPath dev h))
   \<and> list_all succeeded (butlast (calls (getLocalAudioPath dev) h))
   \<and> (fst (getLocalAudioPath dev h) \<noteq> Inr None \<longrightarrow>
        list_all succeeded (calls (getLocalAudioPath dev) h))
   \<and> fst (deleteLocalAudio dev h) = Inr ()
   \<and> list_all succeeded (butlast (calls (deleteLocalAudio dev) h))
   \<and> fst (deleteNotificationSound dev h) = Inr ()
   \<and> list_all succeeded (butlast (calls (deleteNotificationSound dev) h))
   \<and> getNotificationSoundName = NOTIFICATION_SOUND_FILENAME"
proof -
  note a = orderly_result[where m = "saveAudioLocally dev sourceRef" and h = h,
      OF orderly_saveAudioLocally cache_total(1)]
  note b = orderly_result[where m = "saveNotificationSound dev sourceRef" and h = h,
      OF orderly_saveNotificationSound cache_total(2)]
  note c = orderly_result[where m = "getLocalAudioPath dev" and h = h,
      OF orderly_getLocalAudioPath cache_total(3)]
  note d = orderly_unit[where m = "deleteLocalAudio dev" and h = h,
      OF orderly_deleteLocalAudio cache_total(4)]
  note e = orderly_unit[where m = "deleteNotificationSound dev" and h = h,
      OF orderly_deleteNotificationSound cache_total(5)]
  have f: "snd (last (snd (saveNotificationSound dev sourceRef h))) = Exists True"
    if "fst (saveNotificationSound dev sourceRef h) \<noteq> Inr None"
    using saveNotificationSound_checked[OF that] by simp
  have g: "fst (saveAudioLocally dev sourceRef h) = Inr None
      \<and> fst (saveNotificationSound dev sourceRef h) = Inr None"
    if "OS dev \<noteq> Web" "isDataUri sourceRef" "extractBase64FromDataUri sourceRef = None"
    using save_invalid_inline[OF that, of h] by simp
  show ?thesis
    using a b c d e f g cache_total(1,2)[of dev sourceRef h] cache_total(3)[of dev h]
    by (simp add: getNotificationSoundName_def)
qed

text \<open>
  On the working phone both saves of \<^verbatim>\<open>data:audio/wav;base64,AAAA\<close> and the load that
  follows return non-null after calls that have all succeeded, and both saves of
  \<^verbatim>\<open>data:oops\<close> return null. On the device that rejects every call, the saves and the
  load return null after their first call, and the removals return.
\<close>

theorem C4_never_raise_witness:
  "fst (saveAudioLocally phone ''data:audio/wav;base64,AAAA'' []) \<noteq> Inr None
   \<and> list_all succeeded (calls (saveAudioLocally phone ''data:audio/wav;base64,AAAA'') [])
   \<and> fst (saveNotificationSound phone ''data:audio/wav;base64,AAAA'' []) \<noteq> Inr None
   \<and> list_all succeeded (calls (saveNotificationSound phone ''data:audio/wav;base64,AAAA'') [])
   \<and> snd (last (snd (saveNotificationSound phone ''data:audio/wav;base64,AAAA'' []))) = Exists True
   \<and> fst (getLocalAudioPath phone (snd (saveAudioLocally phone ''data:audio/wav;base64,AAAA'' [])))
       \<noteq> Inr None
   \<and> list_all succeeded (calls (getLocalAudioPath phone)
        (snd (saveAudioLocally phone ''data:audio/wav;base64,AAAA'' [])))
   \<and> OS phone \<noteq> Web \<and> isDataUri ''data:oops'' \<and> extractBase64FromDataUri ''data:oops'' = None
   \<and> fst (saveAudioLocally phone ''data:oops'' []) = Inr None
   \<and> fst (saveNotificationSound phone ''data:oops'' []) = Inr None
   \<and> saveAudioLocally broken ''https://example.org/a.mp3'' []
       = (Inr None, [(GetInfoAsync ''nullmorning-audio/'', Rejected)])
   \<and> saveNotificationSound broken ''https://example.org/a.mp3'' []
       = (Inr None, [(GetInfoAsync [], Rejected)])
   \<and> getLocalAudioPath broken []
       = (Inr None, [(GetInfoAsync ''nullmorning-audio/morning-alarm.mp3'', Rejected)])
   \<and> deleteLocalAudio broken []
       = (Inr (), [(GetInfoAsync ''nullmorning-audio/morning-alarm.mp3'', Rejected)])
   \<and> deleteNotificationSound broken []
       = (Inr (), [(GetInfoAsync ''morning-alarm-notification.wav'', Rejected)])"
  using C4_never_raise[of phone "''data:audio/wav;base64,AAAA''" "[]"]
    C4_never_raise[of phone "''data:audio/wav;base64,AAAA''"
      "snd (saveAudioLocally phone ''data:audio/wav;base64,AAAA'' [])"]
    C4_never_raise[of phone "''data:oops''" "[]"]
    C4_never_raise[of broken "''https://example.org/a.mp3''" "[]"]
  by code_simp

end
